theory Spec2Isabelle
  imports Main
begin

section \<open>Plain JavaScript objects used as dictionaries\<close>

text \<open>
  The dashboard keeps its per-sensor buffers in a plain object (\<^verbatim>\<open>this.sensorsData = {}\<close>)
  and looks statuses and sensor names up in object literals. Three facts of the language
  decide what those lookups and enumerations return, so they are part of the model:
  \<^item> an object is an ordered collection of own properties; assigning to an existing key
    keeps its position, assigning to a new key adds it at the end;
  \<^item> \<^verbatim>\<open>Object.keys\<close> and \<^verbatim>\<open>Object.values\<close> enumerate the own keys that are array
    indices (canonical decimal numerals below \<open>2^32 - 1\<close>) first, in ascending numeric
    order, and then the other keys in the order of their creation;
  \<^item> a read \<^verbatim>\<open>obj[k]\<close> of a key that is not an own property continues in
    \<^verbatim>\<open>Object.prototype\<close>, whose members (\<^verbatim>\<open>constructor\<close>, \<^verbatim>\<open>toString\<close>, ...) are
    all truthy; only a key found nowhere reads as \<^verbatim>\<open>undefined\<close>.
  An object is an association list of its own properties in creation order.
\<close>

type_synonym 'a js_object = "(string \<times> 'a) list"

text \<open>The property names every plain object inherits (ECMAScript, with Annex B).\<close>

definition object_prototype_names :: "string list" where
  "object_prototype_names =
     [''constructor'', ''__defineGetter__'', ''__defineSetter__'', ''hasOwnProperty'',
      ''__lookupGetter__'', ''__lookupSetter__'', ''isPrototypeOf'',
      ''propertyIsEnumerable'', ''toString'', ''valueOf'', ''__proto__'',
      ''toLocaleString'']"

datatype 'a property = Own 'a | Inherited | Absent

text \<open>The read \<^verbatim>\<open>obj[k]\<close>.\<close>

definition get_prop :: "'a js_object \<Rightarrow> string \<Rightarrow> 'a property" where
  "get_prop obj k =
     (case map_of obj k of
        Some v \<Rightarrow> Own v
      | None \<Rightarrow> if k \<in> set object_prototype_names then Inherited else Absent)"

text \<open>The assignment \<^verbatim>\<open>obj[k] = v\<close>.\<close>

fun set_prop :: "string \<Rightarrow> 'a \<Rightarrow> 'a js_object \<Rightarrow> 'a js_object" where
  "set_prop k v [] = [(k, v)]"
| "set_prop k v (p # ps) = (if fst p = k then (k, v) # ps else p # set_prop k v ps)"

definition is_digit :: "char \<Rightarrow> bool" where
  "is_digit c = (c \<in> set ''0123456789'')"

definition digit_value :: "char \<Rightarrow> nat" where
  "digit_value c = of_char c - 48"

definition decimal :: "string \<Rightarrow> nat" where
  "decimal s = foldl (\<lambda>n c. 10 * n + digit_value c) 0 s"

text \<open>An array index: the canonical numeral of an integer from 0 to \<open>2^32 - 2\<close>.\<close>

definition is_array_index :: "string \<Rightarrow> bool" where
  "is_array_index s =
     (s \<noteq> [] \<and> list_all is_digit s \<and> (s = ''0'' \<or> hd s \<noteq> CHR ''0'') \<and>
      decimal s < 4294967295)"

text \<open>The own properties in the order of \<^verbatim>\<open>Object.keys\<close>.\<close>

definition object_entries :: "'a js_object \<Rightarrow> (string \<times> 'a) list" where
  "object_entries obj =
     sort_key (\<lambda>p. decimal (fst p)) (filter (\<lambda>p. is_array_index (fst p)) obj) @
     filter (\<lambda>p. \<not> is_array_index (fst p)) obj"

definition object_keys :: "'a js_object \<Rightarrow> string list" where
  "object_keys obj = map fst (object_entries obj)"

definition object_values :: "'a js_object \<Rightarrow> 'a list" where
  "object_values obj = map snd (object_entries obj)"

text \<open>\<^verbatim>\<open>xs.slice(-n)\<close>: the last \<open>n\<close> elements, all of them when there are fewer.\<close>

definition slice_last :: "nat \<Rightarrow> 'a list \<Rightarrow> 'a list" where
  "slice_last n xs = drop (length xs - n) xs"

text \<open>
  \<^verbatim>\<open>[...new Set(xs)]\<close>: a set keeps its elements in the order of their first insertion.
\<close>

fun set_add_all :: "'a list \<Rightarrow> 'a list \<Rightarrow> 'a list" where
  "set_add_all acc [] = acc"
| "set_add_all acc (x # xs) = set_add_all (if x \<in> set acc then acc else acc @ [x]) xs"

definition new_Set :: "'a list \<Rightarrow> 'a list" where
  "new_Set xs = set_add_all [] xs"

section \<open>Data\<close>

text \<open>
  Numbers carried from the events to the charts are never computed with, so their type
  is a parameter \<open>'v\<close> (it also holds \<^verbatim>\<open>undefined\<close> for a metric the payload lacks).
  An optional field that is \<^verbatim>\<open>undefined\<close> or \<^verbatim>\<open>null\<close> is \<open>None\<close>.
\<close>

text \<open>
  The time value of a \<^verbatim>\<open>Date\<close>, what \<^verbatim>\<open>getTime()\<close> returns: a count of milliseconds,
  or \<^verbatim>\<open>NaN\<close> for the Invalid Date that \<^verbatim>\<open>new Date(data.timestamp)\<close> makes of a missing
  or unparseable timestamp.
\<close>

datatype time_value = Instant int | NaN

text \<open>\<^verbatim>\<open>a === b\<close> on time values: \<^verbatim>\<open>NaN\<close> is equal to nothing, itself included.\<close>

fun strict_eq :: "time_value \<Rightarrow> time_value \<Rightarrow> bool" where
  "strict_eq (Instant a) (Instant b) = (a = b)"
| "strict_eq a b = False"

text \<open>
  \<^verbatim>\<open>xs.sort((a, b) => a - b)\<close> on dates. The comparison puts \<open>a\<close> after \<open>b\<close> when
  \<open>a - b\<close> is positive; a difference that is \<^verbatim>\<open>NaN\<close> counts as zero, and elements that
  compare as zero keep their order. With an Invalid Date among the elements the
  comparison is not consistent and the language leaves the resulting order to the
  implementation; the model takes a stable insertion sort.
\<close>

fun comes_after :: "time_value \<Rightarrow> time_value \<Rightarrow> bool" where
  "comes_after (Instant a) (Instant b) = (a - b > 0)"
| "comes_after a b = False"

fun js_insort :: "time_value \<Rightarrow> time_value list \<Rightarrow> time_value list" where
  "js_insort x [] = [x]"
| "js_insort x (y # ys) = (if comes_after x y then y # js_insort x ys else x # y # ys)"

definition js_sort :: "time_value list \<Rightarrow> time_value list" where
  "js_sort xs = foldr js_insort xs []"

text \<open>The exceptions: a \<^verbatim>\<open>TypeError\<close>, and the rejection of a failed request.\<close>

datatype js_error = TypeError | FetchFailure

datatype outcome = Returned | Thrown js_error

text \<open>One element of a sensor's buffer, as \<^verbatim>\<open>handleRealtimeData\<close> pushes it.\<close>

record 'v reading =
  timestamp :: time_value
  temperature :: 'v
  humidity :: 'v
  co2 :: 'v

text \<open>
  The payload of a \<^verbatim>\<open>realtime_data\<close> event as the handler reads it:
  \<^verbatim>\<open>data.sensor_id\<close>, \<^verbatim>\<open>data.timestamp\<close>, \<^verbatim>\<open>data.data\<close> (\<open>sensor_data\<close>) with its own
  \<^verbatim>\<open>data\<close> (\<open>metrics\<close>) and \<^verbatim>\<open>system_status\<close>. A sensor's \<^verbatim>\<open>latest_data\<close> has the
  same shape.
\<close>

record 'v metrics =
  m_temperature :: 'v
  m_humidity :: 'v
  m_co2 :: 'v
  m_occupancy :: 'v

record 'v sensor_data =
  sd_data :: "'v metrics option"
  sd_system_status :: "string option"

record 'v realtime_data =
  rt_sensor_id :: string
  rt_timestamp :: time_value
  rt_data :: "'v sensor_data option"

record 'v sensor =
  s_sensor_id :: string
  s_name :: string
  s_coordinates :: "('v \<times> 'v) option"
  s_latest_data :: "'v sensor_data option"

record alert =
  al_severity :: "string option"
  al_message :: string

text \<open>
  The payload of \<^verbatim>\<open>initial_data\<close>. \<open>i_system_status\<close> is the value as a property key
  (what \<^verbatim>\<open>statusConfigs[status]\<close> looks up); the empty string is falsy.
\<close>

record 'v initial_data =
  i_sensors :: "'v sensor list option"
  i_system_status :: "string option"
  i_alerts :: "alert list option"

text \<open>
  The payload of \<^verbatim>\<open>system_status_update\<close>: \<open>None\<close> when \<^verbatim>\<open>status.system_status\<close> is
  missing, else the property key of \<^verbatim>\<open>status.system_status.status\<close>.
\<close>

record system_status_update =
  ssu_system_status :: "string option"

text \<open>One response of the bulk fetch: \<^verbatim>\<open>{ success, data }\<close>.\<close>

record 'a api_response =
  success :: bool
  payload :: 'a

text \<open>A chart dataset; the constant style fields (tension, fill, point radii) are left out.\<close>

record 'v dataset =
  label :: string
  data :: "'v list"
  borderColor :: string
  backgroundColor :: string
  yAxisID :: "string option"
  borderDash :: "nat list option"

record 'v chart =
  labels :: "string list"
  datasets :: "'v dataset list"

text \<open>
  The dashboard object. \<open>charts_temperature\<close> and \<open>charts_humidity\<close> are \<open>None\<close> when the
  page had no canvas for them at start. The object keeps no list of alerts.
\<close>

record 'v dashboard =
  sensorsData :: "'v reading list js_object"
  isConnected :: bool
  charts_temperature :: "'v chart option"
  charts_humidity :: "'v chart option"

text \<open>
  What a handler reads from the page and the browser when it runs: which elements exist
  (\<^verbatim>\<open>getElementById\<close>), the locale's time format, and the text an inherited member of
  \<^verbatim>\<open>Object.prototype\<close> has in a template string (implementation-defined).
\<close>

record env =
  has_sensorsContainer :: bool
  has_buildingMap :: bool
  has_systemStatus :: bool
  has_status_badge :: "string \<Rightarrow> bool"
  toLocaleTimeString :: "int \<Rightarrow> string"
  inherited_text :: "string \<Rightarrow> string"

text \<open>
  What a handler sends out: the bulk fetch of \<^verbatim>\<open>loadInitialData\<close>, and the class and
  markup written to the \<^verbatim>\<open>systemStatus\<close> element. Other writes to the page (cards,
  markers, notifications, the connection indicator) are not recorded.
\<close>

datatype effect = FetchInitialData | SystemStatusShown string string

record 'v step =
  after :: "'v dashboard"
  effects :: "effect list"
  outcome :: outcome

section \<open>The dashboard\<close>

subsection \<open>Constructor\<close>

definition sensorColors :: "string list" where
  "sensorColors =
     [''#00d4ff'', ''#0099cc'', ''#66e0ff'', ''#33ccff'',
      ''#009bff'', ''#4dd8ff'', ''#1ac6ff'', ''#80e8ff'']"

text \<open>
  The state after \<^verbatim>\<open>constructor\<close> and \<^verbatim>\<open>initializeCharts\<close>; the arguments say whether
  the page has the canvases \<^verbatim>\<open>temperatureChart\<close> and \<^verbatim>\<open>humidityCoChart\<close>.
\<close>

definition new_chart :: "bool \<Rightarrow> 'v chart option" where
  "new_chart present = (if present then Some \<lparr>labels = [], datasets = []\<rparr> else None)"

definition new_dashboard :: "bool \<Rightarrow> bool \<Rightarrow> 'v dashboard" where
  "new_dashboard tempCtx humidityCtx =
     \<lparr>sensorsData = [], isConnected = False,
      charts_temperature = new_chart tempCtx, charts_humidity = new_chart humidityCtx\<rparr>"

text \<open>The period of \<^verbatim>\<open>startHealthCheck\<close>'s timer, in milliseconds.\<close>

definition healthCheckInterval :: nat where
  "healthCheckInterval = 30000"

subsection \<open>Names and statuses\<close>

definition sensorNames :: "string js_object" where
  "sensorNames =
     [(''hvac_office_a1'', ''Office A1''), (''hvac_office_a2'', ''Office A2''),
      (''hvac_meeting_room'', ''Meeting Room''), (''hvac_main_corridor'', ''Corridor''),
      (''hvac_kitchen'', ''Kitchen''), (''hvac_reception'', ''Reception''),
      (''hvac_restroom'', ''Restroom'')]"

text \<open>\<^verbatim>\<open>sensorNames[sensorId] || sensorId\<close>, as a template string prints it.\<close>

definition getSensorName :: "env \<Rightarrow> string \<Rightarrow> string" where
  "getSensorName e sensorId =
     (case get_prop sensorNames sensorId of
        Own n \<Rightarrow> n
      | Inherited \<Rightarrow> inherited_text e sensorId
      | Absent \<Rightarrow> sensorId)"

record status_config =
  cfg_text :: string
  cfg_class :: string
  cfg_icon :: string

definition statusConfigs :: "status_config js_object" where
  "statusConfigs =
     [(''NORMAL'', \<lparr>cfg_text = ''All Systems Operating Normally'',
                    cfg_class = ''system-status status-normal'',
                    cfg_icon = ''fa-check-circle''\<rparr>),
      (''WARNING'', \<lparr>cfg_text = ''Minor Issues Detected'',
                     cfg_class = ''system-status status-warning'',
                     cfg_icon = ''fa-exclamation-triangle''\<rparr>),
      (''CRITICAL'', \<lparr>cfg_text = ''Critical Issues Require Attention'',
                      cfg_class = ''system-status status-critical'',
                      cfg_icon = ''fa-exclamation-circle''\<rparr>)]"

text \<open>A property read that may be \<^verbatim>\<open>undefined\<close>, as a string conversion prints it.\<close>

definition js_string :: "string option \<Rightarrow> string" where
  "js_string v = (case v of None \<Rightarrow> ''undefined'' | Some s \<Rightarrow> s)"

text \<open>
  \<^verbatim>\<open>statusConfigs[status] || statusConfigs['NORMAL']\<close>, as the three properties read from
  the result. An inherited member is truthy and has none of them.
\<close>

definition status_lookup :: "string \<Rightarrow> string option \<times> string option \<times> string option" where
  "status_lookup status =
     (case get_prop statusConfigs status of
        Own c \<Rightarrow> (Some (cfg_class c), Some (cfg_icon c), Some (cfg_text c))
      | Inherited \<Rightarrow> (None, None, None)
      | Absent \<Rightarrow>
          (case get_prop statusConfigs ''NORMAL'' of
             Own c \<Rightarrow> (Some (cfg_class c), Some (cfg_icon c), Some (cfg_text c))
           | _ \<Rightarrow> (None, None, None)))"

definition status_markup :: "string option \<Rightarrow> string option \<Rightarrow> string" where
  \<open>status_markup icon txt =
     ''<i class="fas '' @ js_string icon @ '' me-2"></i>'' @ js_string txt\<close>

definition updateSystemStatus :: "env \<Rightarrow> string \<Rightarrow> effect list" where
  "updateSystemStatus e status =
     (if \<not> has_systemStatus e then []
      else (case status_lookup status of
              (cls, icon, txt) \<Rightarrow> [SystemStatusShown (js_string cls) (status_markup icon txt)]))"

subsection \<open>Charts\<close>

definition allTimestamps :: "'v reading list js_object \<Rightarrow> time_value list" where
  "allTimestamps sd = js_sort (map timestamp (concat (object_values sd)))"

text \<open>
  A \<^verbatim>\<open>Set\<close> of the time values holds \<^verbatim>\<open>NaN\<close> at most once (it compares by
  SameValueZero).
\<close>

definition uniqueTimestamps :: "'v reading list js_object \<Rightarrow> time_value list" where
  "uniqueTimestamps sd = slice_last 20 (new_Set (allTimestamps sd))"

text \<open>The label of an instant; an Invalid Date prints as \<^verbatim>\<open>Invalid Date\<close>.\<close>

definition time_label :: "env \<Rightarrow> time_value \<Rightarrow> string" where
  "time_label e t = (case t of Instant ms \<Rightarrow> toLocaleTimeString e ms | NaN \<Rightarrow> ''Invalid Date'')"

text \<open>\<^verbatim>\<open>d => timestamps.some(t => t.getTime() === d.timestamp.getTime())\<close>\<close>

definition on_timeline :: "time_value list \<Rightarrow> 'v reading \<Rightarrow> bool" where
  "on_timeline timestamps d = list_ex (\<lambda>t. strict_eq t (timestamp d)) timestamps"

definition palette :: "nat \<Rightarrow> string" where
  "palette index = sensorColors ! (index mod length sensorColors)"

text \<open>
  The datasets of \<^verbatim>\<open>updateTemperatureChart\<close>, one per key of \<^verbatim>\<open>Object.keys\<close> with its
  index; \<^verbatim>\<open>this.sensorsData[sensorId]\<close> is the value of that own property.
\<close>

definition temperatureDataset :: "env \<Rightarrow> time_value list \<Rightarrow> nat \<times> string \<times> 'v reading list \<Rightarrow> 'v dataset" where
  "temperatureDataset e timestamps x =
     (case x of (index, sensorId, buf) \<Rightarrow>
        \<lparr>label = getSensorName e sensorId,
         data = map temperature (filter (on_timeline timestamps) buf),
         borderColor = palette index,
         backgroundColor = palette index @ ''20'',
         yAxisID = None, borderDash = None\<rparr>)"

definition temperatureDatasets :: "env \<Rightarrow> 'v reading list js_object \<Rightarrow> time_value list \<Rightarrow> 'v dataset list" where
  "temperatureDatasets e sd timestamps =
     map (temperatureDataset e timestamps) (enumerate 0 (object_entries sd))"

definition updateTemperatureChart :: "env \<Rightarrow> string list \<Rightarrow> time_value list \<Rightarrow> 'v dashboard \<Rightarrow> 'v dashboard" where
  "updateTemperatureChart e lbls timestamps d =
     (case charts_temperature d of
        None \<Rightarrow> d
      | Some c \<Rightarrow>
          d\<lparr>charts_temperature :=
              Some (c\<lparr>labels := lbls,
                       datasets := temperatureDatasets e (sensorsData d) timestamps\<rparr>)\<rparr>)"

text \<open>The suffix \<^verbatim>\<open> - CO\<close> with the subscript two, in UTF-8.\<close>

definition co2_suffix :: string where
  "co2_suffix = '' - CO'' @ [CHR 0xE2, CHR 0x82, CHR 0x82]"

definition humidityDataset :: "env \<Rightarrow> time_value list \<Rightarrow> nat \<times> string \<times> 'v reading list \<Rightarrow> 'v dataset" where
  "humidityDataset e timestamps x =
     (case x of (index, sensorId, buf) \<Rightarrow>
        \<lparr>label = getSensorName e sensorId @ '' - Humidity'',
         data = map humidity (filter (on_timeline timestamps) buf),
         borderColor = palette index,
         backgroundColor = palette index @ ''20'',
         yAxisID = Some ''y'', borderDash = None\<rparr>)"

definition co2Dataset :: "env \<Rightarrow> time_value list \<Rightarrow> nat \<times> string \<times> 'v reading list \<Rightarrow> 'v dataset" where
  "co2Dataset e timestamps x =
     (case x of (index, sensorId, buf) \<Rightarrow>
        \<lparr>label = getSensorName e sensorId @ co2_suffix,
         data = map co2 (filter (on_timeline timestamps) buf),
         borderColor = palette index,
         backgroundColor = palette index @ ''40'',
         yAxisID = Some ''y1'', borderDash = Some [5, 5]\<rparr>)"

text \<open>
  The \<^verbatim>\<open>forEach\<close> of \<^verbatim>\<open>updateHumidityChart\<close>: each key pushes one dataset to
  \<^verbatim>\<open>humidityDatasets\<close> and one to \<^verbatim>\<open>co2Datasets\<close>.
\<close>

definition humidity_push ::
  "env \<Rightarrow> time_value list \<Rightarrow> 'v dataset list \<times> 'v dataset list \<Rightarrow> nat \<times> string \<times> 'v reading list \<Rightarrow>
   'v dataset list \<times> 'v dataset list" where
  "humidity_push e timestamps acc x =
     (fst acc @ [humidityDataset e timestamps x], snd acc @ [co2Dataset e timestamps x])"

definition humidityCo2Datasets ::
  "env \<Rightarrow> 'v reading list js_object \<Rightarrow> time_value list \<Rightarrow> 'v dataset list \<times> 'v dataset list" where
  "humidityCo2Datasets e sd timestamps =
     foldl (humidity_push e timestamps) ([], []) (enumerate 0 (object_entries sd))"

definition updateHumidityChart :: "env \<Rightarrow> string list \<Rightarrow> time_value list \<Rightarrow> 'v dashboard \<Rightarrow> 'v dashboard" where
  "updateHumidityChart e lbls timestamps d =
     (case charts_humidity d of
        None \<Rightarrow> d
      | Some c \<Rightarrow>
          (case humidityCo2Datasets e (sensorsData d) timestamps of
             (humidityDatasets, co2Datasets) \<Rightarrow>
               d\<lparr>charts_humidity :=
                   Some (c\<lparr>labels := lbls, datasets := humidityDatasets @ co2Datasets\<rparr>)\<rparr>))"

definition updateCharts :: "env \<Rightarrow> 'v dashboard \<Rightarrow> 'v dashboard" where
  "updateCharts e d =
     (if length (object_keys (sensorsData d)) = 0 then d
      else let ts = uniqueTimestamps (sensorsData d);
               lbls = map (time_label e) ts
           in updateHumidityChart e lbls ts (updateTemperatureChart e lbls ts d))"

subsection \<open>Realtime readings\<close>

text \<open>
  \<^verbatim>\<open>updateSensorCard\<close>, called once \<^verbatim>\<open>sensorData.data\<close> has been read: with a status badge
  on the page it calls \<^verbatim>\<open>status.toLowerCase()\<close>, which throws on a missing status.
\<close>

definition updateSensorCard :: "env \<Rightarrow> string \<Rightarrow> 'v sensor_data \<Rightarrow> outcome" where
  "updateSensorCard e sensorId sensorData =
     (if has_status_badge e sensorId \<and> sd_system_status sensorData = None
      then Thrown TypeError else Returned)"

text \<open>The object pushed to the buffer.\<close>

definition reading_of :: "'v realtime_data \<Rightarrow> 'v metrics \<Rightarrow> 'v reading" where
  "reading_of ev m =
     \<lparr>timestamp = rt_timestamp ev, temperature = m_temperature m,
      humidity = m_humidity m, co2 = m_co2 m\<rparr>"

text \<open>
  \<^verbatim>\<open>handleRealtimeData\<close>. The buffer is created when \<^verbatim>\<open>this.sensorsData[sensorId]\<close> is
  falsy (an array, even empty, is truthy, and so is an inherited member). The argument of
  \<^verbatim>\<open>push\<close> reads \<^verbatim>\<open>sensorData.data.temperature\<close>, a \<^verbatim>\<open>TypeError\<close> when \<^verbatim>\<open>data.data\<close> or
  its \<^verbatim>\<open>data\<close> is missing; an inherited member has no \<^verbatim>\<open>push\<close>, a \<^verbatim>\<open>TypeError\<close> as
  well. Nothing catches it, so the statements after it do not run.
\<close>

definition handleRealtimeData :: "env \<Rightarrow> 'v realtime_data \<Rightarrow> 'v dashboard \<Rightarrow> 'v step" where
  "handleRealtimeData e ev d =
     (let sensorId = rt_sensor_id ev;
          d1 = (case get_prop (sensorsData d) sensorId of
                  Absent \<Rightarrow> d\<lparr>sensorsData := set_prop sensorId [] (sensorsData d)\<rparr>
                | _ \<Rightarrow> d)
      in case get_prop (sensorsData d1) sensorId of
           Own buf \<Rightarrow>
             (case rt_data ev of
                None \<Rightarrow> \<lparr>after = d1, effects = [], outcome = Thrown TypeError\<rparr>
              | Some sensorData \<Rightarrow>
                  (case sd_data sensorData of
                     None \<Rightarrow> \<lparr>after = d1, effects = [], outcome = Thrown TypeError\<rparr>
                   | Some m \<Rightarrow>
                       let pushed = buf @ [reading_of ev m];
                           kept = (if length pushed > 50 then slice_last 50 pushed else pushed);
                           d2 = d1\<lparr>sensorsData := set_prop sensorId kept (sensorsData d1)\<rparr>
                       in (case updateSensorCard e sensorId sensorData of
                             Thrown x \<Rightarrow> \<lparr>after = d2, effects = [], outcome = Thrown x\<rparr>
                           | Returned \<Rightarrow>
                               \<lparr>after = updateCharts e d2, effects = [], outcome = Returned\<rparr>)))
         | _ \<Rightarrow> \<lparr>after = d1, effects = [], outcome = Thrown TypeError\<rparr>)"

subsection \<open>Alerts and status\<close>

text \<open>
  The handlers call \<^verbatim>\<open>this.addNewAlert(alert)\<close> and \<^verbatim>\<open>this.updateAlerts(alerts)\<close>. The
  class defines neither method, and nothing in the file adds one: each name reads as
  \<^verbatim>\<open>undefined\<close>, and the call is a \<^verbatim>\<open>TypeError\<close>.
\<close>

definition addNewAlert :: "alert \<Rightarrow> outcome" where
  "addNewAlert a = Thrown TypeError"

definition updateAlerts :: "alert list \<Rightarrow> outcome" where
  "updateAlerts as = Thrown TypeError"

text \<open>
  \<^verbatim>\<open>handleNewAlert\<close>: the call of \<^verbatim>\<open>addNewAlert\<close> comes first; the notification text
  after it reads \<^verbatim>\<open>alert.severity.toLowerCase()\<close>.
\<close>

definition handleNewAlert :: "env \<Rightarrow> alert \<Rightarrow> 'v dashboard \<Rightarrow> 'v step" where
  "handleNewAlert e a d =
     (case addNewAlert a of
        Thrown x \<Rightarrow> \<lparr>after = d, effects = [], outcome = Thrown x\<rparr>
      | Returned \<Rightarrow>
          (case al_severity a of
             None \<Rightarrow> \<lparr>after = d, effects = [], outcome = Thrown TypeError\<rparr>
           | Some sev \<Rightarrow> \<lparr>after = d, effects = [], outcome = Returned\<rparr>))"

text \<open>\<^verbatim>\<open>handleSystemStatusUpdate\<close> reads \<^verbatim>\<open>status.system_status.status\<close>.\<close>

definition handleSystemStatusUpdate :: "env \<Rightarrow> system_status_update \<Rightarrow> 'v dashboard \<Rightarrow> 'v step" where
  "handleSystemStatusUpdate e status d =
     (case ssu_system_status status of
        None \<Rightarrow> \<lparr>after = d, effects = [], outcome = Thrown TypeError\<rparr>
      | Some s \<Rightarrow> \<lparr>after = d, effects = updateSystemStatus e s, outcome = Returned\<rparr>)"

subsection \<open>Bulk state\<close>

text \<open>
  \<^verbatim>\<open>renderSensors\<close> and \<^verbatim>\<open>renderBuildingMap\<close> write to the page only; what matters to
  the state is whether they return. \<^verbatim>\<open>createSensorCardWithData\<close> reads
  \<^verbatim>\<open>latestData.system_status.toLowerCase()\<close> for a sensor with data, and
  \<^verbatim>\<open>createSensorMarker\<close> reads \<^verbatim>\<open>sensor.coordinates.x\<close>.
\<close>

definition hasData :: "'v sensor \<Rightarrow> bool" where
  "hasData sensor =
     (case s_latest_data sensor of None \<Rightarrow> False | Some latestData \<Rightarrow> sd_data latestData \<noteq> None)"

definition card_throws :: "'v sensor \<Rightarrow> bool" where
  "card_throws sensor =
     (case s_latest_data sensor of
        None \<Rightarrow> False
      | Some latestData \<Rightarrow> hasData sensor \<and> sd_system_status latestData = None)"

definition renderSensors :: "env \<Rightarrow> 'v sensor list \<Rightarrow> outcome" where
  "renderSensors e sensors =
     (if \<not> has_sensorsContainer e then Returned
      else if list_ex card_throws sensors then Thrown TypeError else Returned)"

definition renderBuildingMap :: "env \<Rightarrow> 'v sensor list \<Rightarrow> outcome" where
  "renderBuildingMap e sensors =
     (if \<not> has_buildingMap e then Returned
      else if list_ex (\<lambda>sensor. s_coordinates sensor = None) sensors then Thrown TypeError
      else Returned)"

definition render_both :: "env \<Rightarrow> 'v sensor list \<Rightarrow> outcome" where
  "render_both e sensors =
     (case renderSensors e sensors of
        Thrown x \<Rightarrow> Thrown x
      | Returned \<Rightarrow> renderBuildingMap e sensors)"

text \<open>\<^verbatim>\<open>handleInitialData\<close>, the handler of the socket's \<^verbatim>\<open>initial_data\<close>.\<close>

definition handleInitialData :: "env \<Rightarrow> 'v initial_data \<Rightarrow> 'v dashboard \<Rightarrow> 'v step" where
  "handleInitialData e p d =
     (case (case i_sensors p of None \<Rightarrow> Returned | Some sensors \<Rightarrow> render_both e sensors) of
        Thrown x \<Rightarrow> \<lparr>after = d, effects = [], outcome = Thrown x\<rparr>
      | Returned \<Rightarrow>
          \<lparr>after = d,
           effects = (case i_system_status p of
                        None \<Rightarrow> []
                      | Some s \<Rightarrow> if s = [] then [] else updateSystemStatus e s),
           outcome = (case i_alerts p of None \<Rightarrow> Returned | Some as \<Rightarrow> updateAlerts as)\<rparr>)"

text \<open>
  \<^verbatim>\<open>loadInitialData\<close> has two halves: the two requests it sends, and the body that runs
  when both answers have arrived (\<open>None\<close>: a request or its parsing failed). The body is
  inside \<^verbatim>\<open>try\<close>, so an exception ends it and is not passed on; \<^verbatim>\<open>catch\<close> writes a
  notification to the page.
\<close>

definition loadInitialData :: "'v dashboard \<Rightarrow> 'v step" where
  "loadInitialData d = \<lparr>after = d, effects = [FetchInitialData], outcome = Returned\<rparr>"

definition loadInitialData_try ::
  "env \<Rightarrow> ('v sensor list api_response \<times> alert list api_response) option \<Rightarrow> outcome" where
  "loadInitialData_try e answers =
     (case answers of
        None \<Rightarrow> Thrown FetchFailure
      | Some (sensorsJson, alertsJson) \<Rightarrow>
          (case (if success sensorsJson then render_both e (payload sensorsJson) else Returned) of
             Thrown x \<Rightarrow> Thrown x
           | Returned \<Rightarrow>
               if success alertsJson then updateAlerts (payload alertsJson) else Returned))"

definition loadInitialData_resolved ::
  "env \<Rightarrow> ('v sensor list api_response \<times> alert list api_response) option \<Rightarrow> 'v dashboard \<Rightarrow> 'v step" where
  "loadInitialData_resolved e answers d =
     (case loadInitialData_try e answers of
        Thrown x \<Rightarrow> \<lparr>after = d, effects = [], outcome = Returned\<rparr>
      | Returned \<Rightarrow> \<lparr>after = d, effects = [], outcome = Returned\<rparr>)"

subsection \<open>Connection and health check\<close>

definition on_connect :: "'v dashboard \<Rightarrow> 'v step" where
  "on_connect d = \<lparr>after = d\<lparr>isConnected := True\<rparr>, effects = [], outcome = Returned\<rparr>"

definition on_disconnect :: "'v dashboard \<Rightarrow> 'v step" where
  "on_disconnect d = \<lparr>after = d\<lparr>isConnected := False\<rparr>, effects = [], outcome = Returned\<rparr>"

text \<open>The callback of \<^verbatim>\<open>startHealthCheck\<close>, run every \<open>healthCheckInterval\<close> ms.\<close>

definition healthCheck :: "'v dashboard \<Rightarrow> 'v step" where
  "healthCheck d =
     (if \<not> isConnected d then loadInitialData d
      else \<lparr>after = d, effects = [], outcome = Returned\<rparr>)"

subsection \<open>Events\<close>

text \<open>
  What the dashboard reacts to: the socket's events, the health-check timer, and the
  arrival of the answers to a bulk fetch. Each runs its handler to the end (or to its
  exception) before the next; an exception leaves the dashboard in place for the next
  event.
\<close>

datatype 'v event =
    Connect
  | Disconnect
  | Initial_data "'v initial_data"
  | Realtime_data "'v realtime_data"
  | New_alert alert
  | System_status_update system_status_update
  | Health_tick
  | Fetch_resolved "('v sensor list api_response \<times> alert list api_response) option"

fun handle :: "env \<Rightarrow> 'v event \<Rightarrow> 'v dashboard \<Rightarrow> 'v step" where
  "handle e Connect d = on_connect d"
| "handle e Disconnect d = on_disconnect d"
| "handle e (Initial_data p) d = handleInitialData e p d"
| "handle e (Realtime_data ev) d = handleRealtimeData e ev d"
| "handle e (New_alert a) d = handleNewAlert e a d"
| "handle e (System_status_update s) d = handleSystemStatusUpdate e s d"
| "handle e Health_tick d = healthCheck d"
| "handle e (Fetch_resolved r) d = loadInitialData_resolved e r d"

text \<open>A run: each event with the page as it is when the event arrives.\<close>

fun run :: "(env \<times> 'v event) list \<Rightarrow> 'v dashboard \<Rightarrow> 'v dashboard" where
  "run [] d = d"
| "run (x # xs) d = run xs (after (handle (fst x) (snd x) d))"

fun run_effects :: "(env \<times> 'v event) list \<Rightarrow> 'v dashboard \<Rightarrow> effect list" where
  "run_effects [] d = []"
| "run_effects (x # xs) d =
     effects (handle (fst x) (snd x) d) @ run_effects xs (after (handle (fst x) (snd x) d))"

section \<open>Vocabulary of the properties\<close>

text \<open>
  The buffer of a sensor: the array stored under its identifier, empty when there is
  none.
\<close>

definition buffer_of :: "'v dashboard \<Rightarrow> string \<Rightarrow> 'v reading list" where
  "buffer_of d s = (case map_of (sensorsData d) s of None \<Rightarrow> [] | Some buf \<Rightarrow> buf)"

text \<open>
  The reading an event delivers for sensor \<open>s\<close>, the spec's \<^verbatim>\<open>record(sensorId, reading)\<close>:
  a \<^verbatim>\<open>realtime_data\<close> event for \<open>s\<close> that carries the nested metrics. What the
  identifier is plays no part.
\<close>

fun delivered_by :: "string \<Rightarrow> env \<times> 'v event \<Rightarrow> 'v reading list" where
  "delivered_by s (e, Realtime_data ev) =
     (if rt_sensor_id ev = s
      then (case rt_data ev of
              None \<Rightarrow> []
            | Some sensorData \<Rightarrow>
                (case sd_data sensorData of None \<Rightarrow> [] | Some m \<Rightarrow> [reading_of ev m]))
      else [])"
| "delivered_by s (e, other) = []"

definition delivered :: "string \<Rightarrow> (env \<times> 'v event) list \<Rightarrow> 'v reading list" where
  "delivered s xs = concat (map (delivered_by s) xs)"

definition buffer_step :: "string \<Rightarrow> 'v reading list \<Rightarrow> env \<times> 'v event \<Rightarrow> 'v reading list" where
  "buffer_step s b x = (if delivered_by s x = [] then b else slice_last 50 (b @ delivered_by s x))"

text \<open>No own key of the store is a name inherited from \<^verbatim>\<open>Object.prototype\<close>.\<close>

definition own_keys_ok :: "'v dashboard \<Rightarrow> bool" where
  "own_keys_ok d = list_all (\<lambda>k. k \<notin> set object_prototype_names) (map fst (sensorsData d))"

text \<open>
  Time values in ascending order: each is a valid instant and none is later than one
  that follows it. No order relates \<^verbatim>\<open>NaN\<close> to anything.
\<close>

fun time_le :: "time_value \<Rightarrow> time_value \<Rightarrow> bool" where
  "time_le (Instant a) (Instant b) = (a \<le> b)"
| "time_le a b = False"

definition ascending :: "time_value list \<Rightarrow> bool" where
  "ascending ts = sorted_wrt time_le ts"

text \<open>The valid instants among some time values, in their order.\<close>

fun instants :: "time_value list \<Rightarrow> int list" where
  "instants [] = []"
| "instants (Instant ms # ts) = ms # instants ts"
| "instants (NaN # ts) = instants ts"

text \<open>
  The timestamps of all readings of the store, its valid instants, and the store in
  which every timestamp is a valid date.
\<close>

definition store_times :: "'v reading list js_object \<Rightarrow> time_value list" where
  "store_times sd = map timestamp (concat (map snd sd))"

definition store_instants :: "'v reading list js_object \<Rightarrow> int set" where
  "store_instants sd = set (instants (store_times sd))"

definition valid_store :: "'v reading list js_object \<Rightarrow> bool" where
  "valid_store sd = list_all (\<lambda>t. t \<noteq> NaN) (store_times sd)"

section \<open>Examples\<close>

definition example_page :: env where
  "example_page =
     \<lparr>has_sensorsContainer = True, has_buildingMap = True, has_systemStatus = True,
      has_status_badge = (\<lambda>sensorId. True),
      toLocaleTimeString = (\<lambda>t. ''12:00 PM''),
      inherited_text = (\<lambda>k. ''[object Object]'')\<rparr>"

text \<open>A well-formed reading of a sensor with a timestamp, all metrics equal to \<open>v\<close>.\<close>

definition example_reading :: "string \<Rightarrow> time_value \<Rightarrow> int \<Rightarrow> int realtime_data" where
  "example_reading sensorId t v =
     \<lparr>rt_sensor_id = sensorId, rt_timestamp = t,
      rt_data = Some \<lparr>sd_data = Some \<lparr>m_temperature = v, m_humidity = v, m_co2 = v,
                                         m_occupancy = v\<rparr>,
                       sd_system_status = Some ''NORMAL''\<rparr>\<rparr>"

definition example_dashboard :: "int dashboard" where
  "example_dashboard = new_dashboard True True"

text \<open>
  Two sensors with 25 distinct instants between them, six of which (10 to 15) both have.
\<close>

definition two_sensor_store :: "int reading list js_object" where
  "two_sensor_store =
     [(''hvac_kitchen'',
       map (\<lambda>t. \<lparr>timestamp = Instant t, temperature = 20, humidity = 40, co2 = 400\<rparr>)
         [1, 2, 3, 4, 5, 6, 7, 8, 9, 10, 11, 12, 13, 14, 15]),
      (''hvac_reception'',
       map (\<lambda>t. \<lparr>timestamp = Instant t, temperature = 21, humidity = 41, co2 = 410\<rparr>)
         [10, 11, 12, 13, 14, 15, 16, 17, 18, 19, 20, 21, 22, 23, 24, 25])]"

definition two_sensor_dashboard :: "int dashboard" where
  "two_sensor_dashboard = example_dashboard\<lparr>sensorsData := two_sensor_store\<rparr>"

text \<open>
  The spec's scenario: two sensors that share the instant 1000 and have one instant each
  that the other lacks.
\<close>

definition scenario_store :: "int reading list js_object" where
  "scenario_store =
     [(''hvac_office_a1'',
       [\<lparr>timestamp = Instant 1000, temperature = 10, humidity = 30, co2 = 400\<rparr>,
        \<lparr>timestamp = Instant 1001, temperature = 11, humidity = 31, co2 = 401\<rparr>]),
      (''hvac_office_a2'',
       [\<lparr>timestamp = Instant 1000, temperature = 20, humidity = 50, co2 = 500\<rparr>,
        \<lparr>timestamp = Instant 1002, temperature = 21, humidity = 51, co2 = 501\<rparr>])]"

definition scenario_timeline :: "time_value list" where
  "scenario_timeline = [Instant 1000, Instant 1001, Instant 1002]"

definition scenario_dashboard :: "int dashboard" where
  "scenario_dashboard = example_dashboard\<lparr>sensorsData := scenario_store\<rparr>"

text \<open>Two readings of one sensor, the second older than the first, and the same two in order.\<close>

definition late_arrival :: "(env \<times> int event) list" where
  "late_arrival =
     [(example_page, Realtime_data (example_reading ''hvac_kitchen'' (Instant 2) 21)),
      (example_page, Realtime_data (example_reading ''hvac_kitchen'' (Instant 1) 20))]"

definition in_order_arrival :: "(env \<times> int event) list" where
  "in_order_arrival =
     [(example_page, Realtime_data (example_reading ''hvac_kitchen'' (Instant 1) 20)),
      (example_page, Realtime_data (example_reading ''hvac_kitchen'' (Instant 2) 21))]"

text \<open>Well-formed readings of one sensor at the given instants, in that order.\<close>

definition kitchen_burst :: "int list \<Rightarrow> (env \<times> int event) list" where
  "kitchen_burst ts =
     map (\<lambda>t. (example_page, Realtime_data (example_reading ''hvac_kitchen'' (Instant t) 21))) ts"

text \<open>
  Three well-formed readings of one sensor, the second with a timestamp that does not
  parse, and the buffer they leave.
\<close>

definition unparsed_arrival :: "(env \<times> int event) list" where
  "unparsed_arrival =
     [(example_page, Realtime_data (example_reading ''hvac_kitchen'' (Instant 5) 21)),
      (example_page, Realtime_data (example_reading ''hvac_kitchen'' NaN 22)),
      (example_page, Realtime_data (example_reading ''hvac_kitchen'' (Instant 3) 23))]"

definition unparsed_store :: "int reading list js_object" where
  "unparsed_store =
     [(''hvac_kitchen'',
       [\<lparr>timestamp = Instant 5, temperature = 21, humidity = 21, co2 = 21\<rparr>,
        \<lparr>timestamp = NaN, temperature = 22, humidity = 22, co2 = 22\<rparr>,
        \<lparr>timestamp = Instant 3, temperature = 23, humidity = 23, co2 = 23\<rparr>])]"

text \<open>Three well-formed readings of a sensor whose identifier is \<^verbatim>\<open>constructor\<close>.\<close>

definition constructor_arrival :: "(env \<times> int event) list" where
  "constructor_arrival =
     [(example_page, Realtime_data (example_reading ''constructor'' (Instant 1) 21)),
      (example_page, Realtime_data (example_reading ''constructor'' (Instant 2) 22)),
      (example_page, Realtime_data (example_reading ''constructor'' (Instant 3) 23))]"

text \<open>Two sensors whose identifiers are numerals, the one named \<open>2\<close> seen first.\<close>

definition numbered_arrival :: "(env \<times> int event) list" where
  "numbered_arrival =
     [(example_page, Realtime_data (example_reading ''2'' (Instant 1000) 20)),
      (example_page, Realtime_data (example_reading ''1'' (Instant 1001) 21))]"

definition numbered_store :: "int reading list js_object" where
  "numbered_store =
     [(''2'', [\<lparr>timestamp = Instant 1000, temperature = 20, humidity = 20, co2 = 20\<rparr>]),
      (''1'', [\<lparr>timestamp = Instant 1001, temperature = 21, humidity = 21, co2 = 21\<rparr>])]"

text \<open>A reading event without its \<^verbatim>\<open>data\<close> object, and an alert without a severity.\<close>

definition malformed_reading :: "int realtime_data" where
  "malformed_reading =
     \<lparr>rt_sensor_id = ''hvac_kitchen'', rt_timestamp = Instant 7, rt_data = None\<rparr>"

definition alert_without_severity :: alert where
  "alert_without_severity = \<lparr>al_severity = None, al_message = ''Filter clogged''\<rparr>"

definition live_dashboard :: "int dashboard" where
  "live_dashboard = example_dashboard\<lparr>isConnected := True\<rparr>"

definition example_alert :: alert where
  "example_alert = \<lparr>al_severity = Some ''WARNING'', al_message = ''Filter clogged''\<rparr>"

definition example_sensor :: "int sensor" where
  "example_sensor =
     \<lparr>s_sensor_id = ''hvac_kitchen'', s_name = ''Kitchen'', s_coordinates = Some (10, 5),
      s_latest_data = Some \<lparr>sd_data = Some \<lparr>m_temperature = 22, m_humidity = 45, m_co2 = 420,
                                               m_occupancy = 3\<rparr>,
                             sd_system_status = Some ''NORMAL''\<rparr>\<rparr>"

text \<open>A bulk payload with sensors and a status, and the same with alerts as well.\<close>

definition example_initial_data :: "int initial_data" where
  "example_initial_data =
     \<lparr>i_sensors = Some [example_sensor], i_system_status = Some ''WARNING'',
      i_alerts = None\<rparr>"

definition example_initial_data_with_alerts :: "int initial_data" where
  "example_initial_data_with_alerts =
     \<lparr>i_sensors = Some [example_sensor], i_system_status = Some ''WARNING'',
      i_alerts = Some [example_alert]\<rparr>"

text \<open>A dashboard that has handled one reading of the kitchen sensor.\<close>

definition kitchen_seen :: "int dashboard" where
  "kitchen_seen =
     run [(example_page, Realtime_data (example_reading ''hvac_kitchen'' (Instant 1) 21))]
       example_dashboard"

section \<open>The timeline\<close>

lemma set_set_add_all: "set (set_add_all acc xs) = set acc \<union> set xs"
  by (induction xs arbitrary: acc) auto

lemma distinct_set_add_all: "distinct acc \<Longrightarrow> distinct (set_add_all acc xs)"
  by (induction xs arbitrary: acc) auto

lemma sorted_set_add_all: "sorted (acc @ xs) \<Longrightarrow> sorted (set_add_all acc xs)"
proof (induction xs arbitrary: acc)
  case Nil
  then show ?case by simp
next
  case (Cons x xs)
  show ?case
  proof (cases "x \<in> set acc")
    case True
    from Cons.prems have "sorted (acc @ xs)" by (auto simp: sorted_append)
    with True Cons.IH show ?thesis by simp
  next
    case False
    from Cons.prems have "sorted ((acc @ [x]) @ xs)" by simp
    with False Cons.IH show ?thesis by simp
  qed
qed

lemma new_Set_sorted: "sorted xs \<Longrightarrow> new_Set xs = sorted_list_of_set (set xs)"
proof -
  assume s: "sorted xs"
  have 1: "sorted (new_Set xs)" using s by (simp add: new_Set_def sorted_set_add_all)
  have 2: "distinct (new_Set xs)" by (simp add: new_Set_def distinct_set_add_all)
  have 3: "set (new_Set xs) = set xs" by (simp add: new_Set_def set_set_add_all)
  show ?thesis
    using 1 2 3 by (metis sorted_list_of_set.idem_if_sorted_distinct)
qed

lemma set_add_all_map:
  "inj f \<Longrightarrow> set_add_all (map f acc) (map f xs) = map f (set_add_all acc xs)"
proof (induction xs arbitrary: acc)
  case Nil
  then show ?case by simp
next
  case (Cons x xs)
  have m: "f x \<in> set (map f acc) \<longleftrightarrow> x \<in> set acc"
    using Cons.prems by (auto simp: inj_def)
  have "map f acc @ [f x] = map f (acc @ [x])" by simp
  then show ?case
    using Cons.IH [OF Cons.prems, of acc] Cons.IH [OF Cons.prems, of "acc @ [x]"] m
    by (simp del: map_append)
qed

lemma new_Set_map: "inj f \<Longrightarrow> new_Set (map f xs) = map f (new_Set xs)"
  using set_add_all_map [of f "[]" xs] by (simp add: new_Set_def)

lemma inj_Instant: "inj Instant"
  by (simp add: inj_def)

lemma slice_last_map: "slice_last n (map f xs) = map f (slice_last n xs)"
  by (simp add: slice_last_def drop_map)

lemma map_Instant_instants: "list_all (\<lambda>t. t \<noteq> NaN) ts \<Longrightarrow> map Instant (instants ts) = ts"
  by (induction ts rule: instants.induct) simp_all

lemma js_insort_Instant: "js_insort (Instant x) (map Instant ys) = map Instant (insort x ys)"
  by (induction ys) auto

lemma js_sort_Instant: "js_sort (map Instant ys) = map Instant (sort ys)"
  by (induction ys) (simp_all add: js_sort_def js_insort_Instant [unfolded js_sort_def])

lemma set_object_entries: "set (object_entries obj) = set obj"
  by (auto simp: object_entries_def)

lemma set_instants: "set (instants ts) = {ms. Instant ms \<in> set ts}"
  by (induction ts rule: instants.induct) auto

lemma set_object_values_times:
  "set (map timestamp (concat (object_values sd))) = set (store_times sd)"
  by (auto simp: object_values_def store_times_def set_object_entries)

lemma valid_object_values:
  "valid_store sd \<Longrightarrow> list_all (\<lambda>t. t \<noteq> NaN) (map timestamp (concat (object_values sd)))"
  using set_object_values_times [of sd] by (simp add: valid_store_def list_all_iff)

lemma instants_object_values:
  "set (instants (map timestamp (concat (object_values sd)))) = store_instants sd"
  using set_object_values_times [of sd] by (simp only: set_instants store_instants_def)

lemma new_Set_allTimestamps:
  assumes "valid_store sd"
  shows "new_Set (allTimestamps sd) = map Instant (sorted_list_of_set (store_instants sd))"
proof -
  let ?ts = "map timestamp (concat (object_values sd))"
  have "allTimestamps sd = js_sort (map Instant (instants ?ts))"
    using map_Instant_instants [OF valid_object_values [OF assms]] by (simp add: allTimestamps_def)
  then have "allTimestamps sd = map Instant (sort (instants ?ts))"
    by (simp add: js_sort_Instant)
  then have "new_Set (allTimestamps sd) = map Instant (new_Set (sort (instants ?ts)))"
    by (simp add: new_Set_map inj_Instant)
  also have "new_Set (sort (instants ?ts)) = sorted_list_of_set (set (sort (instants ?ts)))"
    by (rule new_Set_sorted) simp
  finally show ?thesis by (simp add: instants_object_values)
qed

lemma uniqueTimestamps_eq:
  "valid_store sd \<Longrightarrow>
   uniqueTimestamps sd =
     map Instant (drop (card (store_instants sd) - 20) (sorted_list_of_set (store_instants sd)))"
  by (simp add: uniqueTimestamps_def new_Set_allTimestamps slice_last_map) (simp add: slice_last_def)

lemma finite_store_instants: "finite (store_instants sd)"
  by (simp add: store_instants_def)

lemma ascending_Instant: "ascending (map Instant zs) \<longleftrightarrow> sorted zs"
  by (simp add: ascending_def sorted_wrt_map)

lemma ascending_uniqueTimestamps: "valid_store sd \<Longrightarrow> ascending (uniqueTimestamps sd)"
  by (simp add: uniqueTimestamps_eq ascending_Instant sorted_wrt_drop)

lemma distinct_uniqueTimestamps: "valid_store sd \<Longrightarrow> distinct (uniqueTimestamps sd)"
  by (simp add: uniqueTimestamps_eq distinct_map inj_Instant [THEN inj_on_subset])

lemma length_uniqueTimestamps:
  "valid_store sd \<Longrightarrow> length (uniqueTimestamps sd) = min 20 (card (store_instants sd))"
  by (simp add: uniqueTimestamps_eq)

lemma set_uniqueTimestamps:
  assumes "valid_store sd"
  shows "set (uniqueTimestamps sd) \<subseteq> Instant ` store_instants sd"
proof -
  have "set (drop (card (store_instants sd) - 20) (sorted_list_of_set (store_instants sd))) \<subseteq>
        set (sorted_list_of_set (store_instants sd))"
    by (rule set_drop_subset)
  then show ?thesis
    by (auto simp: uniqueTimestamps_eq [OF assms] finite_store_instants)
qed

lemma dropped_are_older:
  assumes "valid_store sd" "t \<in> store_instants sd" "Instant t \<notin> set (uniqueTimestamps sd)"
    "Instant u \<in> set (uniqueTimestamps sd)"
  shows "t < u"
proof -
  let ?xs = "sorted_list_of_set (store_instants sd)"
  let ?n = "card (store_instants sd) - 20"
  have U: "set (uniqueTimestamps sd) = Instant ` set (drop ?n ?xs)"
    by (simp add: uniqueTimestamps_eq [OF assms(1)])
  have xs: "?xs = take ?n ?xs @ drop ?n ?xs" by simp
  have "t \<in> set ?xs" using assms(2) by (simp add: finite_store_instants)
  then have "t \<in> set (take ?n ?xs) \<union> set (drop ?n ?xs)" using xs by (metis set_append)
  moreover have "t \<notin> set (drop ?n ?xs)" using assms(3) U by blast
  ultimately have t: "t \<in> set (take ?n ?xs)" by blast
  have u: "u \<in> set (drop ?n ?xs)" using assms(4) U by (auto simp: inj_def)
  have "sorted (take ?n ?xs @ drop ?n ?xs)" by simp
  then have "t \<le> u" using t u unfolding sorted_append by blast
  moreover have "distinct (take ?n ?xs @ drop ?n ?xs)" by simp
  then have "t \<noteq> u" using t u unfolding distinct_append by blast
  ultimately show ?thesis by simp
qed

lemma object_keys_nonempty: "sd \<noteq> [] \<Longrightarrow> length (object_keys sd) \<noteq> 0"
proof -
  assume "sd \<noteq> []"
  then have "set (object_entries sd) \<noteq> {}" by (simp add: set_object_entries)
  then show ?thesis by (simp add: object_keys_def)
qed

section \<open>The store\<close>

lemma map_of_set_prop: "map_of (set_prop k v sd) = (map_of sd)(k \<mapsto> v)"
  by (induction sd) auto

lemma keys_set_prop:
  "map fst (set_prop k v sd) = (if k \<in> set (map fst sd) then map fst sd else map fst sd @ [k])"
  by (induction sd) auto

lemma set_prop_fresh: "map_of sd k = None \<Longrightarrow> set_prop k v sd = sd @ [(k, v)]"
  by (induction sd) (auto split: if_splits)

lemma set_prop_snoc: "map_of sd k = None \<Longrightarrow> set_prop k v (sd @ [(k, w)]) = sd @ [(k, v)]"
  by (induction sd) (auto split: if_splits)

lemma sensorsData_updateTemperatureChart [simp]:
  "sensorsData (updateTemperatureChart e l t d) = sensorsData d"
  by (simp add: updateTemperatureChart_def split: option.splits)

lemma sensorsData_updateHumidityChart [simp]:
  "sensorsData (updateHumidityChart e l t d) = sensorsData d"
  by (simp add: updateHumidityChart_def split: option.splits prod.splits)

lemma sensorsData_updateCharts [simp]: "sensorsData (updateCharts e d) = sensorsData d"
  by (simp add: updateCharts_def Let_def)

lemma charts_humidity_updateTemperatureChart [simp]:
  "charts_humidity (updateTemperatureChart e l t d) = charts_humidity d"
  by (simp add: updateTemperatureChart_def split: option.splits)

lemma get_prop_Own: "get_prop sd k = Own v \<longleftrightarrow> map_of sd k = Some v"
  by (simp add: get_prop_def split: option.splits)

lemma get_prop_Absent:
  "get_prop sd k = Absent \<longleftrightarrow> map_of sd k = None \<and> k \<notin> set object_prototype_names"
  by (simp add: get_prop_def split: option.splits)

lemma get_prop_Inherited:
  "get_prop sd k = Inherited \<longleftrightarrow> map_of sd k = None \<and> k \<in> set object_prototype_names"
  by (simp add: get_prop_def split: option.splits)

lemma keep50_slice: "(if length ys > 50 then slice_last 50 ys else ys) = slice_last 50 ys"
  by (simp add: slice_last_def)

lemma length_slice_last: "length (slice_last n xs) = min n (length xs)"
  by (simp add: slice_last_def)

lemma slice_last_idem: "slice_last n (slice_last n xs @ ys) = slice_last n (xs @ ys)"
proof -
  have "length xs + length ys - (length xs - n + n) + (length xs - n) = length xs + length ys - n"
    by arith
  then show ?thesis by (simp add: slice_last_def)
qed

lemma slice_last_short: "length xs \<le> n \<Longrightarrow> slice_last n xs = xs"
  by (simp add: slice_last_def)

lemma map_slice_last: "map f (slice_last n xs) = slice_last n (map f xs)"
  by (simp add: slice_last_def drop_map)

lemma ascending_slice_last: "ascending xs \<Longrightarrow> ascending (slice_last n xs)"
  by (simp add: ascending_def slice_last_def sorted_wrt_drop)

section \<open>The buffers\<close>

lemma own_key_not_inherited:
  "own_keys_ok d \<Longrightarrow> map_of (sensorsData d) k = Some v \<Longrightarrow> k \<notin> set object_prototype_names"
proof -
  assume ok: "own_keys_ok d" and m: "map_of (sensorsData d) k = Some v"
  from m have "k \<in> set (map fst (sensorsData d))"
    by (metis map_of_SomeD image_eqI fst_conv set_map)
  with ok show ?thesis by (auto simp: own_keys_ok_def list_all_iff)
qed

lemma buffer_of_inherited:
  assumes "own_keys_ok d" "s \<in> set object_prototype_names"
  shows "buffer_of d s = []"
proof (cases "map_of (sensorsData d) s")
  case None
  then show ?thesis by (simp add: buffer_of_def)
next
  case (Some buf)
  then show ?thesis using own_key_not_inherited [OF assms(1) Some] assms(2) by simp
qed

lemma buffer_handleRealtimeData:
  assumes "s \<notin> set object_prototype_names"
  shows "buffer_of (after (handleRealtimeData e ev d)) s =
           buffer_step s (buffer_of d s) (e, Realtime_data ev)"
proof (cases "get_prop (sensorsData d) (rt_sensor_id ev)")
  case (Own buf)
  then have m: "map_of (sensorsData d) (rt_sensor_id ev) = Some buf" by (simp add: get_prop_Own)
  show ?thesis
    using Own m
    by (auto simp: handleRealtimeData_def Let_def buffer_of_def buffer_step_def map_of_set_prop
               keep50_slice
             split: option.splits outcome.splits)
next
  case Inherited
  then have "rt_sensor_id ev \<in> set object_prototype_names" by (simp add: get_prop_Inherited)
  then have "rt_sensor_id ev \<noteq> s" using assms by auto
  then show ?thesis
    using Inherited by (auto simp: handleRealtimeData_def Let_def buffer_step_def)
next
  case Absent
  then have m: "map_of (sensorsData d) (rt_sensor_id ev) = None"
    by (simp add: get_prop_Absent)
  have own: "get_prop (set_prop (rt_sensor_id ev) [] (sensorsData d)) (rt_sensor_id ev) = Own []"
    by (simp add: get_prop_Own map_of_set_prop)
  show ?thesis
    using Absent m own
    by (auto simp: handleRealtimeData_def Let_def buffer_of_def buffer_step_def map_of_set_prop
               slice_last_def
             split: option.splits outcome.splits)
qed

lemma own_keys_ok_set_prop:
  "list_all (\<lambda>k. k \<notin> set object_prototype_names) (map fst sd) \<Longrightarrow>
   k \<notin> set object_prototype_names \<Longrightarrow>
   list_all (\<lambda>k. k \<notin> set object_prototype_names) (map fst (set_prop k v sd))"
  by (simp add: keys_set_prop)

lemma own_keys_ok_handleRealtimeData:
  assumes "own_keys_ok d"
  shows "own_keys_ok (after (handleRealtimeData e ev d))"
proof (cases "get_prop (sensorsData d) (rt_sensor_id ev)")
  case (Own buf)
  then have m: "map_of (sensorsData d) (rt_sensor_id ev) = Some buf" by (simp add: get_prop_Own)
  have ni: "rt_sensor_id ev \<notin> set object_prototype_names"
    using own_key_not_inherited [OF assms m] .
  show ?thesis
    using Own ni assms own_keys_ok_set_prop [of "sensorsData d" "rt_sensor_id ev"]
    by (auto simp: handleRealtimeData_def Let_def own_keys_ok_def
             split: option.splits outcome.splits)
next
  case Inherited
  then show ?thesis using assms by (auto simp: handleRealtimeData_def Let_def)
next
  case Absent
  then have ni: "rt_sensor_id ev \<notin> set object_prototype_names"
    by (simp add: get_prop_Absent)
  have own: "get_prop (set_prop (rt_sensor_id ev) [] (sensorsData d)) (rt_sensor_id ev) = Own []"
    by (simp add: get_prop_Own map_of_set_prop)
  have 1: "list_all (\<lambda>k. k \<notin> set object_prototype_names)
             (map fst (set_prop (rt_sensor_id ev) [] (sensorsData d)))"
    using assms ni by (simp add: own_keys_ok_def own_keys_ok_set_prop)
  show ?thesis
    using Absent ni own 1 own_keys_ok_set_prop [OF 1 ni]
    by (auto simp: handleRealtimeData_def Let_def own_keys_ok_def
             split: option.splits outcome.splits)
qed

lemma sensorsData_handle_other:
  "\<not> (\<exists>ev. x = Realtime_data ev) \<Longrightarrow> sensorsData (after (handle e x d)) = sensorsData d"
  by (cases x)
     (auto simp: on_connect_def on_disconnect_def handleInitialData_def handleNewAlert_def
        addNewAlert_def updateAlerts_def handleSystemStatusUpdate_def healthCheck_def
        loadInitialData_def loadInitialData_resolved_def Let_def
        split: option.splits outcome.splits prod.splits)

lemma own_keys_ok_handle: "own_keys_ok d \<Longrightarrow> own_keys_ok (after (handle e x d))"
proof (cases "\<exists>ev. x = Realtime_data ev")
  case True
  assume "own_keys_ok d"
  with True show ?thesis by (auto simp: own_keys_ok_handleRealtimeData)
next
  case False
  assume "own_keys_ok d"
  with sensorsData_handle_other [OF False] show ?thesis by (simp add: own_keys_ok_def)
qed

lemma buffer_handle:
  assumes "s \<notin> set object_prototype_names"
  shows "buffer_of (after (handle e x d)) s = buffer_step s (buffer_of d s) (e, x)"
proof (cases "\<exists>ev. x = Realtime_data ev")
  case True
  then show ?thesis using buffer_handleRealtimeData [OF assms] by auto
next
  case False
  then have "delivered_by s (e, x) = []" by (cases x) auto
  then show ?thesis using sensorsData_handle_other [OF False] by (simp add: buffer_step_def buffer_of_def)
qed

lemma buffer_run:
  "s \<notin> set object_prototype_names \<Longrightarrow>
   buffer_of (run xs d) s = foldl (buffer_step s) (buffer_of d s) xs"
proof (induction xs arbitrary: d)
  case Nil
  then show ?case by simp
next
  case (Cons x xs)
  then show ?case
    using buffer_handle [OF Cons.prems, of "fst x" "snd x" d] by simp
qed

lemma foldl_buffer_step:
  "length b \<le> 50 \<Longrightarrow> foldl (buffer_step s) b xs = slice_last 50 (b @ delivered s xs)"
proof (induction xs arbitrary: b)
  case Nil
  then show ?case by (simp add: delivered_def slice_last_short)
next
  case (Cons x xs)
  have len: "length (buffer_step s b x) \<le> 50"
    using Cons.prems by (simp add: buffer_step_def length_slice_last)
  show ?case
  proof (cases "delivered_by s x = []")
    case True
    then show ?thesis using Cons.IH [OF Cons.prems] by (simp add: buffer_step_def delivered_def)
  next
    case False
    then show ?thesis
      using Cons.IH [OF len] by (simp add: buffer_step_def delivered_def slice_last_idem)
  qed
qed

lemma own_keys_ok_new: "own_keys_ok (new_dashboard a b)"
  by (simp add: own_keys_ok_def new_dashboard_def)

lemma buffer_new: "buffer_of (new_dashboard a b) s = []"
  by (simp add: buffer_of_def new_dashboard_def)

lemma own_keys_ok_run: "own_keys_ok d \<Longrightarrow> own_keys_ok (run xs d)"
  by (induction xs arbitrary: d) (simp_all add: own_keys_ok_handle)

lemma buffer_after_run:
  assumes "s \<notin> set object_prototype_names"
  shows "buffer_of (run xs (new_dashboard tempCtx humidityCtx)) s = slice_last 50 (delivered s xs)"
proof -
  let ?d = "new_dashboard tempCtx humidityCtx :: 'v dashboard"
  have a: "buffer_of (run xs ?d) s = foldl (buffer_step s) (buffer_of ?d s) xs"
    by (rule buffer_run [OF assms])
  have b: "foldl (buffer_step s) [] xs = slice_last 50 ([] @ delivered s xs)"
    by (rule foldl_buffer_step) simp
  show ?thesis using a b by (simp add: buffer_new)
qed

lemma buffer_after_run_inherited:
  assumes "s \<in> set object_prototype_names"
  shows "buffer_of (run xs (new_dashboard tempCtx humidityCtx)) s = []"
  using own_keys_ok_run [OF own_keys_ok_new] assms by (rule buffer_of_inherited)

lemma first_seen_order:
  "map fst (sensorsData (after (handleRealtimeData e ev d))) =
     (if get_prop (sensorsData d) (rt_sensor_id ev) = Absent
      then map fst (sensorsData d) @ [rt_sensor_id ev] else map fst (sensorsData d))"
proof (cases "get_prop (sensorsData d) (rt_sensor_id ev)")
  case (Own buf)
  then have "rt_sensor_id ev \<in> set (map fst (sensorsData d))"
    by (metis get_prop_Own map_of_SomeD image_eqI fst_conv set_map)
  then show ?thesis
    using Own by (auto simp: handleRealtimeData_def Let_def keys_set_prop split: option.splits outcome.splits)
next
  case Inherited
  then show ?thesis by (auto simp: handleRealtimeData_def Let_def)
next
  case Absent
  then have m: "map_of (sensorsData d) (rt_sensor_id ev) = None" by (simp add: get_prop_Absent)
  have own: "get_prop (set_prop (rt_sensor_id ev) [] (sensorsData d)) (rt_sensor_id ev) = Own []"
    by (simp add: get_prop_Own map_of_set_prop)
  have k: "map fst (set_prop (rt_sensor_id ev) [] (sensorsData d)) = map fst (sensorsData d) @ [rt_sensor_id ev]"
    using set_prop_fresh [OF m, of "[]"] by simp
  show ?thesis
    using Absent own k
    by (auto simp: handleRealtimeData_def Let_def keys_set_prop split: option.splits outcome.splits)
qed

lemma wellformed_new_sensor:
  assumes "rt_data ev = Some sensorData" "sd_data sensorData = Some m"
    and "map_of (sensorsData d) (rt_sensor_id ev) = None"
    and "rt_sensor_id ev \<notin> set object_prototype_names"
  shows "sensorsData (after (handleRealtimeData e ev d)) =
           sensorsData d @ [(rt_sensor_id ev, [reading_of ev m])]"
proof -
  have ab: "get_prop (sensorsData d) (rt_sensor_id ev) = Absent"
    using assms(3,4) by (simp add: get_prop_Absent)
  have fresh: "set_prop (rt_sensor_id ev) [] (sensorsData d) = sensorsData d @ [(rt_sensor_id ev, [])]"
    using assms(3) by (rule set_prop_fresh)
  have own: "get_prop (sensorsData d @ [(rt_sensor_id ev, [])]) (rt_sensor_id ev) = Own []"
    using assms(3) by (simp add: get_prop_Own map_of_append map_add_def)
  have upd: "set_prop (rt_sensor_id ev) [reading_of ev m] (sensorsData d @ [(rt_sensor_id ev, [])]) =
             sensorsData d @ [(rt_sensor_id ev, [reading_of ev m])]"
    using assms(3) by (rule set_prop_snoc)
  show ?thesis
    using ab fresh own upd assms(1,2)
    by (simp add: handleRealtimeData_def Let_def slice_last_def split: outcome.splits)
qed

lemma wellformed_known_sensor:
  assumes "rt_data ev = Some sensorData" "sd_data sensorData = Some m"
    and "map_of (sensorsData d) (rt_sensor_id ev) = Some buf"
  shows "sensorsData (after (handleRealtimeData e ev d)) =
           set_prop (rt_sensor_id ev) (slice_last 50 (buf @ [reading_of ev m])) (sensorsData d)"
proof -
  have own: "get_prop (sensorsData d) (rt_sensor_id ev) = Own buf"
    using assms(3) by (simp add: get_prop_Own)
  show ?thesis
    using own assms(1,2)
    by (simp add: handleRealtimeData_def Let_def keep50_slice split: outcome.splits)
qed

section \<open>Malformed events\<close>

lemma malformed_outcome:
  assumes "rt_data ev = None \<or> (\<exists>sensorData. rt_data ev = Some sensorData \<and> sd_data sensorData = None)"
  shows "outcome (handleRealtimeData e ev d) = Thrown TypeError"
proof (cases "get_prop (sensorsData d) (rt_sensor_id ev)")
  case (Own buf)
  then show ?thesis using assms by (auto simp: handleRealtimeData_def Let_def)
next
  case Inherited
  then show ?thesis by (auto simp: handleRealtimeData_def Let_def)
next
  case Absent
  have own: "get_prop (set_prop (rt_sensor_id ev) [] (sensorsData d)) (rt_sensor_id ev) = Own []"
    by (simp add: get_prop_Own map_of_set_prop)
  show ?thesis using Absent own assms by (auto simp: handleRealtimeData_def Let_def)
qed

lemma malformed_after:
  assumes "rt_data ev = None \<or> (\<exists>sensorData. rt_data ev = Some sensorData \<and> sd_data sensorData = None)"
  shows "after (handleRealtimeData e ev d) =
           (if get_prop (sensorsData d) (rt_sensor_id ev) = Absent
            then d\<lparr>sensorsData := sensorsData d @ [(rt_sensor_id ev, [])]\<rparr> else d)"
proof (cases "get_prop (sensorsData d) (rt_sensor_id ev)")
  case (Own buf)
  then show ?thesis using assms by (auto simp: handleRealtimeData_def Let_def)
next
  case Inherited
  then show ?thesis by (auto simp: handleRealtimeData_def Let_def)
next
  case Absent
  then have m: "map_of (sensorsData d) (rt_sensor_id ev) = None" by (simp add: get_prop_Absent)
  have own: "get_prop (set_prop (rt_sensor_id ev) [] (sensorsData d)) (rt_sensor_id ev) = Own []"
    by (simp add: get_prop_Own map_of_set_prop)
  show ?thesis
    using Absent own assms set_prop_fresh [OF m, of "[]"]
    by (auto simp: handleRealtimeData_def Let_def)
qed

lemma malformed_buffers:
  assumes "rt_data ev = None \<or> (\<exists>sensorData. rt_data ev = Some sensorData \<and> sd_data sensorData = None)"
  shows "buffer_of (after (handleRealtimeData e ev d)) s = buffer_of d s"
proof (cases "get_prop (sensorsData d) (rt_sensor_id ev) = Absent")
  case True
  then have m: "map_of (sensorsData d) (rt_sensor_id ev) = None" by (simp add: get_prop_Absent)
  have "map_of (sensorsData d @ [(rt_sensor_id ev, [])]) s = (if s = rt_sensor_id ev then Some [] else map_of (sensorsData d) s)"
    using m by (auto simp: map_of_append map_add_def split: option.splits)
  then show ?thesis
    using True m by (simp add: malformed_after [OF assms] buffer_of_def)
next
  case False
  then show ?thesis by (simp add: malformed_after [OF assms])
qed

lemma malformed_then_run:
  assumes "rt_data ev = None \<or> (\<exists>sensorData. rt_data ev = Some sensorData \<and> sd_data sensorData = None)"
    and "own_keys_ok d"
  shows "buffer_of (run xs (after (handleRealtimeData e ev d))) s = buffer_of (run xs d) s"
proof (cases "s \<in> set object_prototype_names")
  case True
  have "own_keys_ok (after (handleRealtimeData e ev d))"
    using assms(2) by (rule own_keys_ok_handleRealtimeData)
  then have "buffer_of (run xs (after (handleRealtimeData e ev d))) s = []"
    using own_keys_ok_run True buffer_of_inherited by blast
  moreover have "buffer_of (run xs d) s = []"
    using assms(2) own_keys_ok_run True buffer_of_inherited by blast
  ultimately show ?thesis by simp
next
  case False
  show ?thesis
    using buffer_run [OF False, of xs "after (handleRealtimeData e ev d)"] buffer_run [OF False, of xs d]
      malformed_buffers [OF assms(1), of e d s]
    by simp
qed

lemma handleNewAlert_throws:
  "al_severity a = None \<Longrightarrow> outcome (handleNewAlert e a d) = Thrown TypeError"
  by (simp add: handleNewAlert_def addNewAlert_def)

lemma handleNewAlert_always:
  "outcome (handleNewAlert e a d) = Thrown TypeError \<and> after (handleNewAlert e a d) = d"
  by (simp add: handleNewAlert_def addNewAlert_def)

section \<open>Connection, health check and bulk state\<close>

lemma ticks_while_stale:
  "\<not> isConnected d \<Longrightarrow>
   run_effects (replicate n (e, Health_tick)) d = replicate n FetchInitialData \<and>
   run (replicate n (e, Health_tick)) d = d"
  by (induction n) (simp_all add: healthCheck_def loadInitialData_def)

lemma ticks_while_live:
  "isConnected d \<Longrightarrow>
   run_effects (replicate n (e, Health_tick)) d = [] \<and> run (replicate n (e, Health_tick)) d = d"
  by (induction n) (simp_all add: healthCheck_def)

lemma handleInitialData_after: "after (handleInitialData e p d) = d"
  by (simp add: handleInitialData_def split: option.splits outcome.splits)

lemma resolved_after: "after (loadInitialData_resolved e r d) = d"
  by (simp add: loadInitialData_resolved_def split: outcome.splits)

lemma handleInitialData_effects:
  "effects (handleInitialData e p d) = effects (handleInitialData e p d')"
  by (simp add: handleInitialData_def split: option.splits outcome.splits)

lemma handleInitialData_outcome:
  "outcome (handleInitialData e p d) = outcome (handleInitialData e p d')"
  by (simp add: handleInitialData_def split: option.splits outcome.splits)

section \<open>Status lookup\<close>

lemma status_lookup_unknown:
  assumes "status \<notin> {''NORMAL'', ''WARNING'', ''CRITICAL''}" "status \<notin> set object_prototype_names"
  shows "status_lookup status =
           (Some ''system-status status-normal'', Some ''fa-check-circle'',
            Some ''All Systems Operating Normally'')"
proof -
  have "map_of statusConfigs status = None" using assms(1) by (simp add: statusConfigs_def)
  then have "get_prop statusConfigs status = Absent" using assms(2) by (simp add: get_prop_Absent)
  then show ?thesis by (simp add: status_lookup_def get_prop_def statusConfigs_def)
qed

lemma status_lookup_NORMAL:
  "status_lookup ''NORMAL'' =
           (Some ''system-status status-normal'', Some ''fa-check-circle'',
            Some ''All Systems Operating Normally'')"
  by (simp add: status_lookup_def get_prop_def statusConfigs_def)

lemma status_lookup_inherited:
  assumes "status \<in> set object_prototype_names"
  shows "status_lookup status = (None, None, None)"
proof -
  have "status \<notin> {''NORMAL'', ''WARNING'', ''CRITICAL''}"
    using assms by (auto simp: object_prototype_names_def)
  then have "map_of statusConfigs status = None" by (simp add: statusConfigs_def)
  then have "get_prop statusConfigs status = Inherited" using assms by (simp add: get_prop_Inherited)
  then show ?thesis by (simp add: status_lookup_def)
qed

lemma unknown_status_shows_normal:
  assumes "status \<notin> {''NORMAL'', ''WARNING'', ''CRITICAL''}" "status \<notin> set object_prototype_names"
  shows "updateSystemStatus e status = updateSystemStatus e ''NORMAL''"
  using status_lookup_unknown [OF assms]
  by (simp add: updateSystemStatus_def status_lookup_NORMAL)

section \<open>Datasets\<close>

lemma foldl_humidity_push:
  "foldl (humidity_push e ts) acc xs =
     (fst acc @ map (humidityDataset e ts) xs, snd acc @ map (co2Dataset e ts) xs)"
  by (induction xs arbitrary: acc) (simp_all add: humidity_push_def)

lemma humidityCo2Datasets_eq:
  "humidityCo2Datasets e sd ts =
     (map (humidityDataset e ts) (enumerate 0 (object_entries sd)),
      map (co2Dataset e ts) (enumerate 0 (object_entries sd)))"
  by (simp add: humidityCo2Datasets_def foldl_humidity_push)

lemma strict_eq_iff: "strict_eq a b \<longleftrightarrow> a \<noteq> NaN \<and> a = b"
  by (cases a; cases b) simp_all

lemma on_timeline_iff: "on_timeline ts r \<longleftrightarrow> timestamp r \<noteq> NaN \<and> timestamp r \<in> set ts"
  by (auto simp: on_timeline_def list_ex_iff strict_eq_iff)

lemma length_filter_on_timeline:
  assumes "distinct (map timestamp buf)"
  shows "length (filter (on_timeline ts) buf) \<le> length ts"
proof -
  let ?xs = "map timestamp (filter (on_timeline ts) buf)"
  have d: "distinct ?xs" using assms by (simp add: distinct_map_filter)
  have s: "set ?xs \<subseteq> set ts" by (auto simp: on_timeline_iff)
  have "length ?xs = card (set ?xs)" using d by (metis distinct_card)
  also have "\<dots> \<le> card (set ts)" using s by (simp add: card_mono)
  also have "\<dots> \<le> length ts" by (rule card_length)
  finally show ?thesis by simp
qed

lemma map_insort_key:
  "map f (insort_key (\<lambda>p. g (f p)) x xs) = insort_key g (f x) (map f xs)"
  by (induction xs) simp_all

lemma map_sort_key: "map f (sort_key (\<lambda>p. g (f p)) xs) = sort_key g (map f xs)"
  by (induction xs) (simp_all add: map_insort_key)

lemma object_keys_by_names:
  "object_keys sd =
     sort_key decimal (filter is_array_index (map fst sd)) @
     filter (\<lambda>k. \<not> is_array_index k) (map fst sd)"
proof -
  have 1: "filter is_array_index (map fst sd) = map fst (filter (\<lambda>p. is_array_index (fst p)) sd)"
    by (simp add: filter_map comp_def)
  have 2: "filter (\<lambda>k. \<not> is_array_index k) (map fst sd) =
           map fst (filter (\<lambda>p. \<not> is_array_index (fst p)) sd)"
    by (simp add: filter_map comp_def)
  show ?thesis
    by (simp only: object_keys_def object_entries_def map_append 1 2 map_sort_key)
qed

lemma object_keys_same_names: "map fst sd1 = map fst sd2 \<Longrightarrow> object_keys sd1 = object_keys sd2"
  by (simp add: object_keys_by_names)

lemma object_keys_first_seen:
  assumes "list_all (\<lambda>k. \<not> is_array_index k) (map fst sd)"
  shows "object_keys sd = map fst sd"
proof -
  have "filter is_array_index (map fst sd) = []"
    using assms by (auto simp: list_all_iff filter_empty_conv)
  moreover have "filter (\<lambda>k. \<not> is_array_index k) (map fst sd) = map fst sd"
    using assms by (auto simp: list_all_iff filter_id_conv)
  ultimately show ?thesis by (simp add: object_keys_by_names)
qed

lemma length_object_keys: "length (object_keys sd) = length (object_entries sd)"
  by (simp add: object_keys_def)

lemma length_sensorColors: "length sensorColors = 8"
  by (simp add: sensorColors_def)

lemma palette_mod8: "palette i = sensorColors ! (i mod 8)"
  by (simp add: palette_def length_sensorColors)

lemma enumerate_entry:
  "i < length (object_entries sd) \<Longrightarrow>
   enumerate 0 (object_entries sd) ! i = (i, object_keys sd ! i, snd (object_entries sd ! i))"
  by (simp add: nth_enumerate_eq object_keys_def)

lemma temperature_colors:
  "map borderColor (temperatureDatasets e sd ts) = map palette [0..<length (object_keys sd)]"
  by (rule nth_equalityI)
     (simp_all add: temperatureDatasets_def length_object_keys temperatureDataset_def nth_enumerate_eq
        split: prod.splits)

lemma humidity_colors:
  "map borderColor (fst (humidityCo2Datasets e sd ts)) = map palette [0..<length (object_keys sd)]"
  by (rule nth_equalityI)
     (simp_all add: humidityCo2Datasets_eq length_object_keys humidityDataset_def nth_enumerate_eq
        split: prod.splits)

lemma co2_colors:
  "map borderColor (snd (humidityCo2Datasets e sd ts)) = map palette [0..<length (object_keys sd)]"
  by (rule nth_equalityI)
     (simp_all add: humidityCo2Datasets_eq length_object_keys co2Dataset_def nth_enumerate_eq
        split: prod.splits)

lemma nth_temperatureDatasets:
  "i < length (object_keys sd) \<Longrightarrow>
   temperatureDatasets e sd ts ! i =
     temperatureDataset e ts (i, object_keys sd ! i, snd (object_entries sd ! i))"
  by (simp add: temperatureDatasets_def length_object_keys enumerate_entry)

lemma nth_humidityDatasets:
  "i < length (object_keys sd) \<Longrightarrow>
   fst (humidityCo2Datasets e sd ts) ! i =
     humidityDataset e ts (i, object_keys sd ! i, snd (object_entries sd ! i))"
  by (simp add: humidityCo2Datasets_eq length_object_keys enumerate_entry)

lemma nth_co2Datasets:
  "i < length (object_keys sd) \<Longrightarrow>
   snd (humidityCo2Datasets e sd ts) ! i =
     co2Dataset e ts (i, object_keys sd ! i, snd (object_entries sd ! i))"
  by (simp add: humidityCo2Datasets_eq length_object_keys enumerate_entry)

lemma colours_same_names:
  assumes "map fst sd1 = map fst sd2"
  shows "map borderColor (temperatureDatasets e sd1 ts1) = map borderColor (temperatureDatasets e sd2 ts2)"
    and "map borderColor (fst (humidityCo2Datasets e sd1 ts1)) =
         map borderColor (fst (humidityCo2Datasets e sd2 ts2))"
    and "map borderColor (snd (humidityCo2Datasets e sd1 ts1)) =
         map borderColor (snd (humidityCo2Datasets e sd2 ts2))"
  using object_keys_same_names [OF assms]
  by (simp_all only: temperature_colors humidity_colors co2_colors)

lemma colour_of_position:
  assumes "i < length (object_keys sd)"
  shows "label (temperatureDatasets e sd ts ! i) = getSensorName e (object_keys sd ! i)"
    and "borderColor (temperatureDatasets e sd ts ! i) = sensorColors ! (i mod 8)"
    and "borderColor (fst (humidityCo2Datasets e sd ts) ! i) = sensorColors ! (i mod 8)"
    and "borderColor (snd (humidityCo2Datasets e sd ts) ! i) = sensorColors ! (i mod 8)"
  by (simp_all add: nth_temperatureDatasets [OF assms] nth_humidityDatasets [OF assms]
      nth_co2Datasets [OF assms] temperatureDataset_def humidityDataset_def co2Dataset_def
      palette_mod8)

lemma charts_temperature_updateHumidityChart [simp]:
  "charts_temperature (updateHumidityChart e l t d) = charts_temperature d"
  by (simp add: updateHumidityChart_def split: option.splits prod.splits)

lemma updateCharts_temperature:
  assumes "sensorsData d \<noteq> []" and "charts_temperature d = Some c"
  shows "charts_temperature (updateCharts e d) =
           Some (c\<lparr>labels := map (time_label e) (uniqueTimestamps (sensorsData d)),
                   datasets := temperatureDatasets e (sensorsData d) (uniqueTimestamps (sensorsData d))\<rparr>)"
  using object_keys_nonempty [OF assms(1)] assms(2)
  by (simp add: updateCharts_def Let_def updateTemperatureChart_def)

lemma updateCharts_empty: "sensorsData d = [] \<Longrightarrow> updateCharts e d = d"
  by (simp add: updateCharts_def object_keys_def object_entries_def)

lemma updateCharts_nonempty:
  assumes "sensorsData d \<noteq> []"
  shows "updateCharts e d =
           updateHumidityChart e (map (time_label e) (uniqueTimestamps (sensorsData d)))
             (uniqueTimestamps (sensorsData d))
             (updateTemperatureChart e (map (time_label e) (uniqueTimestamps (sensorsData d)))
                (uniqueTimestamps (sensorsData d)) d)"
  using object_keys_nonempty [OF assms] by (simp add: updateCharts_def Let_def)

lemma updateCharts_humidity:
  assumes "sensorsData d \<noteq> []" and "charts_humidity d = Some c"
  shows "map_option datasets (charts_humidity (updateCharts e d)) =
           Some (fst (humidityCo2Datasets e (sensorsData d) (uniqueTimestamps (sensorsData d))) @
                 snd (humidityCo2Datasets e (sensorsData d) (uniqueTimestamps (sensorsData d))))"
  using object_keys_nonempty [OF assms(1)] assms(2)
  by (simp add: updateCharts_def Let_def updateHumidityChart_def split: prod.splits)

lemma humidity_group_lengths:
  "length (fst (humidityCo2Datasets e sd ts)) = length (object_keys sd)"
  "length (snd (humidityCo2Datasets e sd ts)) = length (object_keys sd)"
  by (simp_all add: humidityCo2Datasets_eq length_object_keys)

lemma humidity_pair:
  assumes "i < length (object_keys sd)"
  shows "label (fst (humidityCo2Datasets e sd ts) ! i) = getSensorName e (object_keys sd ! i) @ '' - Humidity''"
    and "label (snd (humidityCo2Datasets e sd ts) ! i) = getSensorName e (object_keys sd ! i) @ co2_suffix"
    and "yAxisID (fst (humidityCo2Datasets e sd ts) ! i) = Some ''y''"
    and "yAxisID (snd (humidityCo2Datasets e sd ts) ! i) = Some ''y1''"
    and "borderDash (fst (humidityCo2Datasets e sd ts) ! i) = None"
    and "borderDash (snd (humidityCo2Datasets e sd ts) ! i) = Some [5, 5]"
  by (simp_all add: nth_humidityDatasets [OF assms] nth_co2Datasets [OF assms]
      humidityDataset_def co2Dataset_def)

section \<open>Examples evaluated\<close>

lemma kitchen_not_inherited: "''hvac_kitchen'' \<notin> set object_prototype_names"
  by (simp add: object_prototype_names_def)

lemma constructor_inherited: "''constructor'' \<in> set object_prototype_names"
  by (simp add: object_prototype_names_def)

lemma is_array_index_names:
  "is_array_index ''hvac_kitchen'' = False" "is_array_index ''hvac_reception'' = False"
  by (simp_all add: is_array_index_def is_digit_def)

lemma is_array_index_scenario:
  "is_array_index ''hvac_office_a1'' = False" "is_array_index ''hvac_office_a2'' = False"
  "is_array_index ''2'' = True" "is_array_index ''1'' = True"
  "decimal ''2'' = 2" "decimal ''1'' = 1"
  by (simp_all add: is_array_index_def is_digit_def decimal_def digit_value_def)

lemma two_sensor_timeline:
  "uniqueTimestamps two_sensor_store =
     map Instant [6, 7, 8, 9, 10, 11, 12, 13, 14, 15, 16, 17, 18, 19, 20, 21, 22, 23, 24, 25]"
  by (simp add: uniqueTimestamps_def allTimestamps_def two_sensor_store_def object_values_def
      object_entries_def is_array_index_names js_sort_def new_Set_def slice_last_def)

lemma scenario_uniqueTimestamps: "uniqueTimestamps scenario_store = scenario_timeline"
  by (simp add: uniqueTimestamps_def allTimestamps_def scenario_store_def object_values_def
      object_entries_def is_array_index_scenario js_sort_def new_Set_def slice_last_def
      scenario_timeline_def)

lemma scenario_entries: "object_entries scenario_store = scenario_store"
  by (simp add: scenario_store_def object_entries_def is_array_index_scenario)

lemma scenario_keys: "object_keys scenario_store = [''hvac_office_a1'', ''hvac_office_a2'']"
  by (simp add: object_keys_def scenario_entries) (simp add: scenario_store_def)

lemma unparsed_entries: "object_entries unparsed_store = unparsed_store"
  by (simp add: unparsed_store_def object_entries_def is_array_index_names)

lemma unparsed_timeline: "uniqueTimestamps unparsed_store = [Instant 5, NaN, Instant 3]"
  by (simp add: uniqueTimestamps_def allTimestamps_def object_values_def unparsed_entries)
     (simp add: unparsed_store_def js_sort_def new_Set_def slice_last_def)

lemma delivered_late_arrival:
  "map timestamp (delivered ''hvac_kitchen'' late_arrival) = [Instant 2, Instant 1]"
  by (simp add: delivered_def late_arrival_def example_reading_def reading_of_def)

lemma delivered_in_order_arrival:
  "map timestamp (delivered ''hvac_kitchen'' in_order_arrival) = [Instant 1, Instant 2]"
  by (simp add: delivered_def in_order_arrival_def example_reading_def reading_of_def)

lemma delivered_kitchen_burst:
  "map timestamp (delivered ''hvac_kitchen'' (kitchen_burst ts)) = map Instant ts"
  by (induction ts)
     (simp_all add: delivered_def kitchen_burst_def example_reading_def reading_of_def)

lemma delivered_constructor_arrival:
  "delivered ''constructor'' constructor_arrival =
     [\<lparr>timestamp = Instant 1, temperature = 21, humidity = 21, co2 = 21\<rparr>,
      \<lparr>timestamp = Instant 2, temperature = 22, humidity = 22, co2 = 22\<rparr>,
      \<lparr>timestamp = Instant 3, temperature = 23, humidity = 23, co2 = 23\<rparr>]"
  by (simp add: delivered_def constructor_arrival_def example_reading_def reading_of_def)

lemma upto_51: "[1..51] = 1 # [2..51]" "length [2..(51::int)] = 50"
  by (simp_all add: upto_rec1)

lemma kitchen_seen_store:
  "sensorsData kitchen_seen =
     [(''hvac_kitchen'', [\<lparr>timestamp = Instant 1, temperature = 21, humidity = 21, co2 = 21\<rparr>])]"
proof -
  let ?ev = "example_reading ''hvac_kitchen'' (Instant 1) 21"
  have n: "rt_sensor_id ?ev \<notin> set object_prototype_names"
    by (simp add: example_reading_def kitchen_not_inherited)
  have "sensorsData (after (handleRealtimeData example_page ?ev example_dashboard)) =
          [(''hvac_kitchen'', [\<lparr>timestamp = Instant 1, temperature = 21, humidity = 21, co2 = 21\<rparr>])]"
    using wellformed_new_sensor [of ?ev _ _ example_dashboard example_page] n
    by (simp add: example_reading_def example_dashboard_def new_dashboard_def reading_of_def)
  then show ?thesis by (simp only: kitchen_seen_def run.simps handle.simps fst_conv snd_conv)
qed

lemma numbered_entries:
  "object_entries numbered_store =
     [(''1'', [\<lparr>timestamp = Instant 1001, temperature = 21, humidity = 21, co2 = 21\<rparr>]),
      (''2'', [\<lparr>timestamp = Instant 1000, temperature = 20, humidity = 20, co2 = 20\<rparr>])]"
  by (simp add: numbered_store_def object_entries_def is_array_index_scenario)

lemma getSensorName_numbered: "getSensorName e ''1'' = ''1''" "getSensorName e ''2'' = ''2''"
  by (simp_all add: getSensorName_def get_prop_def sensorNames_def object_prototype_names_def)

lemma numbered_run: "sensorsData (run numbered_arrival example_dashboard) = numbered_store"
proof -
  let ?e2 = "example_reading ''2'' (Instant 1000) 20"
  let ?e1 = "example_reading ''1'' (Instant 1001) 21"
  let ?d1 = "after (handleRealtimeData example_page ?e2 example_dashboard)"
  have n2: "rt_sensor_id ?e2 \<notin> set object_prototype_names"
    by (simp add: example_reading_def object_prototype_names_def)
  have n1: "rt_sensor_id ?e1 \<notin> set object_prototype_names"
    by (simp add: example_reading_def object_prototype_names_def)
  have 1: "sensorsData ?d1 = [(''2'', [\<lparr>timestamp = Instant 1000, temperature = 20, humidity = 20, co2 = 20\<rparr>])]"
    using wellformed_new_sensor [of ?e2 _ _ example_dashboard example_page] n2
    by (simp add: example_reading_def example_dashboard_def new_dashboard_def reading_of_def)
  have "map_of (sensorsData ?d1) (rt_sensor_id ?e1) = None"
    by (simp only: 1) (simp add: example_reading_def)
  then have 2: "sensorsData (after (handleRealtimeData example_page ?e1 ?d1)) =
      sensorsData ?d1 @ [(''1'', [\<lparr>timestamp = Instant 1001, temperature = 21, humidity = 21, co2 = 21\<rparr>])]"
    using wellformed_new_sensor [of ?e1 _ _ ?d1 example_page] n1
    by (simp add: example_reading_def reading_of_def)
  show ?thesis
    by (simp only: numbered_arrival_def run.simps handle.simps fst_conv snd_conv 2 1 numbered_store_def append.simps)
qed

lemma example_reading_known:
  assumes "map_of (sensorsData d) s = Some buf"
  shows "sensorsData (after (handleRealtimeData e (example_reading s t v) d)) =
           set_prop s (slice_last 50 (buf @ [\<lparr>timestamp = t, temperature = v, humidity = v, co2 = v\<rparr>]))
             (sensorsData d)"
  using wellformed_known_sensor [of "example_reading s t v" _ _ d buf e] assms
  by (simp add: example_reading_def reading_of_def)

lemma unparsed_run: "sensorsData (run unparsed_arrival example_dashboard) = unparsed_store"
proof -
  let ?e1 = "example_reading ''hvac_kitchen'' (Instant 5) 21"
  let ?e2 = "example_reading ''hvac_kitchen'' NaN 22"
  let ?e3 = "example_reading ''hvac_kitchen'' (Instant 3) 23"
  let ?d1 = "after (handleRealtimeData example_page ?e1 example_dashboard)"
  let ?d2 = "after (handleRealtimeData example_page ?e2 ?d1)"
  let ?r1 = "\<lparr>timestamp = Instant 5, temperature = 21, humidity = 21, co2 = 21\<rparr> :: int reading"
  let ?r2 = "\<lparr>timestamp = NaN, temperature = 22, humidity = 22, co2 = 22\<rparr> :: int reading"
  let ?r3 = "\<lparr>timestamp = Instant 3, temperature = 23, humidity = 23, co2 = 23\<rparr> :: int reading"
  have n: "rt_sensor_id ?e1 \<notin> set object_prototype_names"
    by (simp add: example_reading_def kitchen_not_inherited)
  have 1: "sensorsData ?d1 = [(''hvac_kitchen'', [?r1])]"
    using wellformed_new_sensor [of ?e1 _ _ example_dashboard example_page] n
    by (simp add: example_reading_def example_dashboard_def new_dashboard_def reading_of_def)
  have "map_of (sensorsData ?d1) ''hvac_kitchen'' = Some [?r1]"
    by (simp only: 1) simp
  then have "sensorsData ?d2 =
      set_prop ''hvac_kitchen'' (slice_last 50 ([?r1] @ [?r2])) (sensorsData ?d1)"
    by (rule example_reading_known)
  then have 2: "sensorsData ?d2 = [(''hvac_kitchen'', [?r1, ?r2])]"
    by (simp only: 1) (simp add: slice_last_def)
  have "map_of (sensorsData ?d2) ''hvac_kitchen'' = Some [?r1, ?r2]"
    by (simp only: 2) simp
  then have "sensorsData (after (handleRealtimeData example_page ?e3 ?d2)) =
      set_prop ''hvac_kitchen'' (slice_last 50 ([?r1, ?r2] @ [?r3])) (sensorsData ?d2)"
    by (rule example_reading_known)
  then have 3: "sensorsData (after (handleRealtimeData example_page ?e3 ?d2)) =
      [(''hvac_kitchen'', [?r1, ?r2, ?r3])]"
    by (simp only: 2) (simp add: slice_last_def)
  show ?thesis
    by (simp only: unparsed_arrival_def run.simps handle.simps fst_conv snd_conv 3 unparsed_store_def)
qed

lemma inherited_sensor_throws:
  assumes "rt_sensor_id ev \<in> set object_prototype_names"
    and "map_of (sensorsData d) (rt_sensor_id ev) = None"
  shows "handleRealtimeData e ev d = \<lparr>after = d, effects = [], outcome = Thrown TypeError\<rparr>"
proof -
  have "get_prop (sensorsData d) (rt_sensor_id ev) = Inherited"
    using assms by (simp add: get_prop_Inherited)
  then show ?thesis by (simp add: handleRealtimeData_def Let_def)
qed

lemma constructor_reading_throws:
  "handleRealtimeData e (example_reading ''constructor'' t v) example_dashboard =
     \<lparr>after = example_dashboard, effects = [], outcome = Thrown TypeError\<rparr>"
  by (rule inherited_sensor_throws)
     (simp_all add: example_reading_def constructor_inherited example_dashboard_def new_dashboard_def)

lemma example_initial_data_returns:
  "outcome (handleInitialData example_page example_initial_data d) = Returned"
  by (simp add: handleInitialData_def example_initial_data_def render_both_def renderSensors_def
      renderBuildingMap_def example_page_def example_sensor_def card_throws_def hasData_def)

lemma example_initial_data_with_alerts_throws:
  "outcome (handleInitialData example_page example_initial_data_with_alerts d) = Thrown TypeError"
  by (simp add: handleInitialData_def example_initial_data_with_alerts_def render_both_def
      renderSensors_def renderBuildingMap_def example_page_def example_sensor_def card_throws_def
      hasData_def updateAlerts_def)

section \<open>The claims\<close>

subsection \<open>C1: what a dataset holds\<close>

text \<open>
  C1 as stated does not hold. In the spec's scenario the timeline has three instants, and
  both temperature datasets have two values: the readings of the sensor, with nothing
  marking the instant the sensor has no reading at. The second value of the second
  sensor, read at instant 1002, stands in the slot of instant 1001.
\<close>

theorem no_absent_marker_counterexample:
  "uniqueTimestamps scenario_store = [Instant 1000, Instant 1001, Instant 1002] \<and>
   map data (temperatureDatasets example_page scenario_store (uniqueTimestamps scenario_store)) =
     [[10, 11], [20, 21]]"
  by (simp add: scenario_uniqueTimestamps temperatureDatasets_def scenario_entries)
     (simp add: scenario_store_def scenario_timeline_def temperatureDataset_def on_timeline_def)

text \<open>
  C1, amended. For the sensor at each position of \<^verbatim>\<open>Object.keys\<close>, the temperature,
  humidity and CO2 datasets hold the values of exactly those readings of its buffer whose
  timestamp is an instant of the timeline, in buffer order (a reading whose timestamp is
  an Invalid Date is equal to no instant). No absent marker is put in, so a dataset is as
  long as the number of such readings: at most the timeline's length when the buffer's
  timestamps are distinct, and shorter whenever the sensor lacks a reading at some
  instant.
\<close>

theorem datasets_hold_readings_on_timeline:
  assumes "i < length (object_entries sd)" and "object_entries sd ! i = (sensorId, buf)"
  shows "data (temperatureDatasets e sd ts ! i) =
           map temperature (filter (\<lambda>r. timestamp r \<noteq> NaN \<and> timestamp r \<in> set ts) buf) \<and>
         data (fst (humidityCo2Datasets e sd ts) ! i) =
           map humidity (filter (\<lambda>r. timestamp r \<noteq> NaN \<and> timestamp r \<in> set ts) buf) \<and>
         data (snd (humidityCo2Datasets e sd ts) ! i) =
           map co2 (filter (\<lambda>r. timestamp r \<noteq> NaN \<and> timestamp r \<in> set ts) buf) \<and>
         length (data (temperatureDatasets e sd ts ! i)) =
           length (filter (\<lambda>r. timestamp r \<noteq> NaN \<and> timestamp r \<in> set ts) buf) \<and>
         (distinct (map timestamp buf) \<longrightarrow> length (data (temperatureDatasets e sd ts ! i)) \<le> length ts)"
proof -
  have "on_timeline ts = (\<lambda>r::'a reading. timestamp r \<noteq> NaN \<and> timestamp r \<in> set ts)"
    by (rule ext) (simp add: on_timeline_iff)
  then have f: "filter (on_timeline ts) buf =
      filter (\<lambda>r. timestamp r \<noteq> NaN \<and> timestamp r \<in> set ts) buf"
    by simp
  have n: "enumerate 0 (object_entries sd) ! i = (i, sensorId, buf)"
    using assms by (simp add: nth_enumerate_eq)
  have t: "data (temperatureDatasets e sd ts ! i) = map temperature (filter (on_timeline ts) buf)"
    using assms(1) n by (simp add: temperatureDatasets_def temperatureDataset_def)
  have h: "data (fst (humidityCo2Datasets e sd ts) ! i) = map humidity (filter (on_timeline ts) buf)"
    using assms(1) n by (simp add: humidityCo2Datasets_eq humidityDataset_def)
  have c: "data (snd (humidityCo2Datasets e sd ts) ! i) = map co2 (filter (on_timeline ts) buf)"
    using assms(1) n by (simp add: humidityCo2Datasets_eq co2Dataset_def)
  have l: "distinct (map timestamp buf) \<longrightarrow> length (filter (on_timeline ts) buf) \<le> length ts"
    using length_filter_on_timeline [of buf ts] by blast
  show ?thesis
    using t h c l by (simp only: f length_map simp_thms)
qed

theorem datasets_hold_readings_on_timeline_witness:
  "0 < length (object_entries scenario_store) \<and>
   object_entries scenario_store ! 0 =
     (''hvac_office_a1'',
      [\<lparr>timestamp = Instant 1000, temperature = 10, humidity = 30, co2 = 400\<rparr>,
       \<lparr>timestamp = Instant 1001, temperature = 11, humidity = 31, co2 = 401\<rparr>]) \<and>
   data (temperatureDatasets example_page scenario_store scenario_timeline ! 0) = [10, 11] \<and>
   data (snd (humidityCo2Datasets example_page scenario_store scenario_timeline) ! 0) = [400, 401]"
proof -
  have a: "0 < length (object_entries scenario_store)"
    by (simp add: scenario_entries) (simp add: scenario_store_def)
  have b: "object_entries scenario_store ! 0 =
     (''hvac_office_a1'',
      [\<lparr>timestamp = Instant 1000, temperature = 10, humidity = 30, co2 = 400\<rparr>,
       \<lparr>timestamp = Instant 1001, temperature = 11, humidity = 31, co2 = 401\<rparr>])"
    by (simp add: scenario_entries) (simp add: scenario_store_def)
  show ?thesis
    using a b datasets_hold_readings_on_timeline [OF a b, of example_page scenario_timeline]
    by (simp add: scenario_timeline_def)
qed

subsection \<open>C2: the buffer cap\<close>

text \<open>
  C2 is what \<^verbatim>\<open>handleRealtimeData\<close> is written to do, and the code misses it for a
  sensor whose identifier is a name every object inherits. Three well-formed readings
  are delivered for the sensor \<^verbatim>\<open>constructor\<close> to a fresh dashboard. The test
  \<^verbatim>\<open>!this.sensorsData[sensorId]\<close> finds the inherited function, so no buffer is created,
  \<^verbatim>\<open>push\<close> is not a function and each event ends in a \<^verbatim>\<open>TypeError\<close>: the store stays
  empty, where C2 has a buffer holding the three readings.
\<close>

theorem constructor_readings_not_stored:
  "map timestamp (delivered ''constructor'' constructor_arrival) = [Instant 1, Instant 2, Instant 3] \<and>
   map (\<lambda>x. outcome (handle (fst x) (snd x) example_dashboard)) constructor_arrival =
     [Thrown TypeError, Thrown TypeError, Thrown TypeError] \<and>
   run constructor_arrival example_dashboard = example_dashboard \<and>
   sensorsData (run constructor_arrival example_dashboard) = [] \<and>
   buffer_of (run constructor_arrival example_dashboard) ''constructor'' = []"
proof -
  have 1: "map timestamp (delivered ''constructor'' constructor_arrival) =
      [Instant 1, Instant 2, Instant 3]"
    by (simp add: delivered_constructor_arrival)
  have 2: "map (\<lambda>x. outcome (handle (fst x) (snd x) example_dashboard)) constructor_arrival =
     [Thrown TypeError, Thrown TypeError, Thrown TypeError]"
    by (simp add: constructor_arrival_def constructor_reading_throws)
  have 3: "run constructor_arrival example_dashboard = example_dashboard"
    by (simp add: constructor_arrival_def constructor_reading_throws)
  have 4: "sensorsData example_dashboard = []"
    by (simp add: example_dashboard_def new_dashboard_def)
  have 5: "buffer_of example_dashboard ''constructor'' = []"
    by (simp add: example_dashboard_def buffer_new)
  show ?thesis using 1 2 4 5 by (simp only: 3 simp_thms)
qed

subsection \<open>C3: the timeline\<close>

text \<open>
  C3 as stated does not hold. A sensor delivers three readings, the second with a
  timestamp that does not parse. The buffer then holds an Invalid Date between the
  instants 5 and 3; every difference with it is \<^verbatim>\<open>NaN\<close>, the sort moves nothing, and
  the timeline is not ascending and has \<^verbatim>\<open>NaN\<close> as an instant.
\<close>

theorem invalid_date_on_timeline_counterexample:
  "sensorsData (run unparsed_arrival example_dashboard) \<noteq> [] \<and>
   uniqueTimestamps (sensorsData (run unparsed_arrival example_dashboard)) =
     [Instant 5, NaN, Instant 3] \<and>
   \<not> ascending (uniqueTimestamps (sensorsData (run unparsed_arrival example_dashboard)))"
  by (simp add: unparsed_run unparsed_timeline ascending_def) (simp add: unparsed_store_def)

text \<open>
  C3, amended. On a store that is not empty and in which every timestamp is a valid
  date, \<^verbatim>\<open>updateCharts\<close> passes its guard and hands both charts, as timeline, the
  distinct timestamps of all buffers in ascending order, cut to the last 20: it is
  strictly ascending, has \<open>min 20 n\<close> instants when the store has \<open>n\<close> distinct ones (all
  of them when \<open>n\<close> is below 20), and every instant it leaves out is older than every
  instant it keeps. Two readings with the same timestamp, of one sensor or of two, share
  one slot.
\<close>

theorem valid_timeline_is_last_20_instants:
  assumes "sensorsData d \<noteq> []" and "valid_store (sensorsData d)"
  shows "updateCharts e d =
           updateHumidityChart e (map (time_label e) (uniqueTimestamps (sensorsData d)))
             (uniqueTimestamps (sensorsData d))
             (updateTemperatureChart e (map (time_label e) (uniqueTimestamps (sensorsData d)))
                (uniqueTimestamps (sensorsData d)) d) \<and>
         uniqueTimestamps (sensorsData d) =
           map Instant (drop (card (store_instants (sensorsData d)) - 20)
             (sorted_list_of_set (store_instants (sensorsData d)))) \<and>
         ascending (uniqueTimestamps (sensorsData d)) \<and>
         distinct (uniqueTimestamps (sensorsData d)) \<and>
         length (uniqueTimestamps (sensorsData d)) = min 20 (card (store_instants (sensorsData d))) \<and>
         set (uniqueTimestamps (sensorsData d)) \<subseteq> Instant ` store_instants (sensorsData d) \<and>
         (\<forall>t \<in> store_instants (sensorsData d). \<forall>u \<in> store_instants (sensorsData d).
            Instant t \<notin> set (uniqueTimestamps (sensorsData d)) \<longrightarrow>
            Instant u \<in> set (uniqueTimestamps (sensorsData d)) \<longrightarrow> t < u)"
  using updateCharts_nonempty [OF assms(1), of e] uniqueTimestamps_eq [OF assms(2)]
    ascending_uniqueTimestamps [OF assms(2)] distinct_uniqueTimestamps [OF assms(2)]
    length_uniqueTimestamps [OF assms(2)] set_uniqueTimestamps [OF assms(2)]
    dropped_are_older [OF assms(2)]
  by blast

theorem valid_timeline_is_last_20_instants_witness:
  "sensorsData two_sensor_dashboard \<noteq> [] \<and>
   valid_store (sensorsData two_sensor_dashboard) \<and>
   uniqueTimestamps (sensorsData two_sensor_dashboard) =
     map Instant [6, 7, 8, 9, 10, 11, 12, 13, 14, 15, 16, 17, 18, 19, 20, 21, 22, 23, 24, 25] \<and>
   ascending (uniqueTimestamps (sensorsData two_sensor_dashboard)) \<and>
   length (uniqueTimestamps (sensorsData two_sensor_dashboard)) =
     min 20 (card (store_instants (sensorsData two_sensor_dashboard)))"
proof -
  have ne: "sensorsData two_sensor_dashboard \<noteq> []"
    by (simp add: two_sensor_dashboard_def two_sensor_store_def)
  have v: "valid_store (sensorsData two_sensor_dashboard)"
    by (simp add: two_sensor_dashboard_def two_sensor_store_def valid_store_def store_times_def)
  have tl: "uniqueTimestamps (sensorsData two_sensor_dashboard) =
     map Instant [6, 7, 8, 9, 10, 11, 12, 13, 14, 15, 16, 17, 18, 19, 20, 21, 22, 23, 24, 25]"
    by (simp add: two_sensor_dashboard_def two_sensor_timeline)
  show ?thesis
    using ne v valid_timeline_is_last_20_instants [OF ne v, of example_page] tl by blast
qed

subsection \<open>C4: events with missing fields\<close>

text \<open>
  C4 as stated does not hold. A reading event without its \<^verbatim>\<open>data\<close> object, handled by
  a fresh dashboard, ends in a \<^verbatim>\<open>TypeError\<close>, and the store, empty before, has an empty
  buffer for the sensor afterwards.
\<close>

theorem malformed_reading_throws_counterexample:
  "outcome (handleRealtimeData example_page malformed_reading example_dashboard) = Thrown TypeError \<and>
   sensorsData (after (handleRealtimeData example_page malformed_reading example_dashboard)) =
     [(''hvac_kitchen'', [])] \<and>
   sensorsData example_dashboard = []"
proof -
  have m: "rt_data malformed_reading = None \<or>
      (\<exists>sensorData. rt_data malformed_reading = Some sensorData \<and> sd_data sensorData = None)"
    by (simp add: malformed_reading_def)
  have a: "get_prop (sensorsData example_dashboard) (rt_sensor_id malformed_reading) = Absent"
    by (simp add: get_prop_Absent example_dashboard_def new_dashboard_def malformed_reading_def
        kitchen_not_inherited)
  have "after (handleRealtimeData example_page malformed_reading example_dashboard) =
          example_dashboard\<lparr>sensorsData :=
            sensorsData example_dashboard @ [(rt_sensor_id malformed_reading, [])]\<rparr>"
    by (simp only: malformed_after [OF m] a refl if_True)
  then have "sensorsData (after (handleRealtimeData example_page malformed_reading example_dashboard)) =
          [(''hvac_kitchen'', [])]"
    by (simp add: example_dashboard_def new_dashboard_def malformed_reading_def)
  then show ?thesis
    using malformed_outcome [OF m] by (simp add: example_dashboard_def new_dashboard_def)
qed

text \<open>
  C4, amended. A reading event whose \<^verbatim>\<open>data\<close> object, or the \<^verbatim>\<open>data\<close> object inside
  it, is missing makes \<^verbatim>\<open>handleRealtimeData\<close> throw a \<^verbatim>\<open>TypeError\<close>. The dashboard
  is unchanged but for an empty buffer created for a sensor identifier it had not seen;
  no buffer gains or loses a reading, and the buffers after any later events are what
  they would have been without the event. An alert without a severity makes
  \<^verbatim>\<open>handleNewAlert\<close> throw a \<^verbatim>\<open>TypeError\<close>.
\<close>

theorem malformed_event_throws:
  assumes "rt_data ev = None \<or> (\<exists>sensorData. rt_data ev = Some sensorData \<and> sd_data sensorData = None)"
  shows "outcome (handleRealtimeData e ev d) = Thrown TypeError \<and>
         after (handleRealtimeData e ev d) =
           (if get_prop (sensorsData d) (rt_sensor_id ev) = Absent
            then d\<lparr>sensorsData := sensorsData d @ [(rt_sensor_id ev, [])]\<rparr> else d) \<and>
         (\<forall>s. buffer_of (after (handleRealtimeData e ev d)) s = buffer_of d s) \<and>
         (own_keys_ok d \<longrightarrow>
            (\<forall>xs s. buffer_of (run xs (after (handleRealtimeData e ev d))) s = buffer_of (run xs d) s)) \<and>
         (al_severity a = None \<longrightarrow> outcome (handleNewAlert e a d) = Thrown TypeError)"
  using malformed_outcome [OF assms] malformed_after [OF assms] malformed_buffers [OF assms]
    malformed_then_run [OF assms] handleNewAlert_throws
  by blast

theorem malformed_event_throws_witness:
  "rt_data malformed_reading = None \<and>
   outcome (handleRealtimeData example_page malformed_reading live_dashboard) = Thrown TypeError \<and>
   buffer_of (after (handleRealtimeData example_page malformed_reading live_dashboard)) ''hvac_kitchen'' = [] \<and>
   al_severity alert_without_severity = None \<and>
   outcome (handleNewAlert example_page alert_without_severity live_dashboard) = Thrown TypeError"
proof -
  have m: "rt_data malformed_reading = None \<or>
      (\<exists>sensorData. rt_data malformed_reading = Some sensorData \<and> sd_data sensorData = None)"
    by (simp add: malformed_reading_def)
  have n: "rt_data malformed_reading = None" by (simp add: malformed_reading_def)
  have s: "al_severity alert_without_severity = None" by (simp add: alert_without_severity_def)
  have b: "buffer_of live_dashboard ''hvac_kitchen'' = []"
    by (simp add: buffer_of_def live_dashboard_def example_dashboard_def new_dashboard_def)
  note t = malformed_event_throws [OF m, of example_page live_dashboard alert_without_severity]
  have 1: "outcome (handleRealtimeData example_page malformed_reading live_dashboard) = Thrown TypeError"
    using t by blast
  have "buffer_of (after (handleRealtimeData example_page malformed_reading live_dashboard)) ''hvac_kitchen'' =
        buffer_of live_dashboard ''hvac_kitchen''"
    using t by blast
  then have 2: "buffer_of (after (handleRealtimeData example_page malformed_reading live_dashboard)) ''hvac_kitchen'' = []"
    by (simp only: b)
  have 3: "outcome (handleNewAlert example_page alert_without_severity live_dashboard) = Thrown TypeError"
    using t s by blast
  show ?thesis using n 1 2 s 3 by blast
qed

subsection \<open>C5: connection state and resynchronisation\<close>

text \<open>
  C5 as stated does not hold. Handling \<^verbatim>\<open>disconnect\<close> on a connected dashboard marks
  it disconnected and sends no bulk fetch.
\<close>

theorem disconnect_issues_no_resync_counterexample:
  "isConnected live_dashboard \<and>
   \<not> isConnected (after (handle example_page Disconnect live_dashboard)) \<and>
   FetchInitialData \<notin> set (effects (handle example_page Disconnect live_dashboard))"
  by (simp add: live_dashboard_def on_disconnect_def)

text \<open>
  C5, amended. \<^verbatim>\<open>disconnect\<close> marks the dashboard disconnected and \<^verbatim>\<open>connect\<close> marks
  it connected, at once and whatever fetch is under way; neither sends a request. The
  health check, a timer of period 30 seconds, sends one bulk fetch at each tick that
  finds the dashboard disconnected and none at a tick that finds it connected. So the
  first fetch after a disconnect comes with the next tick, not with the disconnect.
\<close>

theorem liveness_transitions:
  "after (handle e Disconnect d) = d\<lparr>isConnected := False\<rparr> \<and>
   effects (handle e Disconnect d) = [] \<and>
   after (handle e Connect d) = d\<lparr>isConnected := True\<rparr> \<and>
   effects (handle e Connect d) = [] \<and>
   (\<not> isConnected d \<longrightarrow>
      effects (handle e Health_tick d) = [FetchInitialData] \<and> after (handle e Health_tick d) = d \<and>
      run_effects (replicate n (e, Health_tick)) d = replicate n FetchInitialData) \<and>
   (isConnected d \<longrightarrow>
      effects (handle e Health_tick d) = [] \<and> after (handle e Health_tick d) = d \<and>
      run_effects (replicate n (e, Health_tick)) d = []) \<and>
   healthCheckInterval = 30 * 1000"
  using ticks_while_stale [of d n e] ticks_while_live [of d n e]
  by (simp add: on_connect_def on_disconnect_def healthCheck_def loadInitialData_def
      healthCheckInterval_def)

theorem liveness_transitions_witness:
  "\<not> isConnected (after (handle example_page Disconnect live_dashboard)) \<and>
   run_effects (replicate 3 (example_page, Health_tick)) (after (handle example_page Disconnect live_dashboard)) =
     [FetchInitialData, FetchInitialData, FetchInitialData] \<and>
   isConnected (after (handle example_page Connect (after (handle example_page Disconnect live_dashboard)))) \<and>
   run_effects (replicate 3 (example_page, Health_tick))
     (after (handle example_page Connect (after (handle example_page Disconnect live_dashboard)))) = []"
proof -
  let ?stale = "after (handle example_page Disconnect live_dashboard)"
  let ?live = "after (handle example_page Connect ?stale)"
  have 1: "\<not> isConnected ?stale"
    using liveness_transitions [of example_page live_dashboard 3] by simp
  have 2: "isConnected ?live"
    using liveness_transitions [of example_page ?stale 3] by simp
  have 3: "run_effects (replicate 3 (example_page, Health_tick)) ?stale = replicate 3 FetchInitialData"
    using liveness_transitions [of example_page ?stale 3] 1 by blast
  have 4: "run_effects (replicate 3 (example_page, Health_tick)) ?live = []"
    using liveness_transitions [of example_page ?live 3] 2 by blast
  have 5: "replicate 3 FetchInitialData = [FetchInitialData, FetchInitialData, FetchInitialData]"
    by (simp add: numeral_3_eq_3)
  show ?thesis using 1 2 3 4 5 by simp
qed

subsection \<open>C6: replaying the bulk state\<close>

text \<open>
  C6 as stated does not hold: a resync does not replace the buffers. A dashboard holding
  one reading of the kitchen sensor (temperature 21) handles a bulk payload that lists
  the kitchen sensor with other data (temperature 22) and no alerts; the handler returns,
  and the buffer is the one from before.
\<close>

theorem resync_keeps_old_buffer_counterexample:
  "sensorsData kitchen_seen =
     [(''hvac_kitchen'', [\<lparr>timestamp = Instant 1, temperature = 21, humidity = 21, co2 = 21\<rparr>])] \<and>
   map (\<lambda>sensor. (s_sensor_id sensor, map_option (map_option m_temperature \<circ> sd_data) (s_latest_data sensor)))
     (the (i_sensors example_initial_data)) = [(''hvac_kitchen'', Some (Some 22))] \<and>
   i_alerts example_initial_data = None \<and>
   outcome (handle example_page (Initial_data example_initial_data) kitchen_seen) = Returned \<and>
   sensorsData (after (handle example_page (Initial_data example_initial_data) kitchen_seen)) =
     [(''hvac_kitchen'', [\<lparr>timestamp = Instant 1, temperature = 21, humidity = 21, co2 = 21\<rparr>])]"
  by (simp add: example_initial_data_returns handleInitialData_after kitchen_seen_store)
     (simp add: example_initial_data_def example_sensor_def)

text \<open>
  C6, amended, for the Series Store. Handling the same bulk payload twice, from the
  socket's \<^verbatim>\<open>initial_data\<close> or from the answers to \<^verbatim>\<open>loadInitialData\<close>, leaves every
  buffer as handling it once does, and that is as it was before the resync: neither
  handler writes to the store, whatever the payload and whether or not the handler
  returns, so nothing is replaced there and nothing appended.
\<close>

theorem resync_never_writes_store:
  "sensorsData (after (handle e (Initial_data p) (after (handle e (Initial_data p) d)))) =
     sensorsData (after (handle e (Initial_data p) d)) \<and>
   sensorsData (after (handle e (Fetch_resolved r) (after (handle e (Fetch_resolved r) d)))) =
     sensorsData (after (handle e (Fetch_resolved r) d)) \<and>
   sensorsData (after (handle e (Initial_data p) d)) = sensorsData d \<and>
   sensorsData (after (handle e (Fetch_resolved r) d)) = sensorsData d \<and>
   (\<forall>s. buffer_of (after (handle e (Initial_data p) d)) s = buffer_of d s) \<and>
   (\<forall>s. buffer_of (after (handle e (Fetch_resolved r) d)) s = buffer_of d s) \<and>
   run [(e, Initial_data p), (e, Initial_data p)] d = d \<and>
   run [(e, Fetch_resolved r), (e, Fetch_resolved r)] d = d"
  by (simp add: handleInitialData_after resolved_after)

theorem resync_never_writes_store_witness:
  "sensorsData (after (handle example_page (Initial_data example_initial_data_with_alerts)
      (after (handle example_page (Initial_data example_initial_data_with_alerts) kitchen_seen)))) =
     [(''hvac_kitchen'', [\<lparr>timestamp = Instant 1, temperature = 21, humidity = 21, co2 = 21\<rparr>])] \<and>
   sensorsData (after (handle example_page (Fetch_resolved None)
      (after (handle example_page (Fetch_resolved None) kitchen_seen)))) =
     [(''hvac_kitchen'', [\<lparr>timestamp = Instant 1, temperature = 21, humidity = 21, co2 = 21\<rparr>])]"
proof -
  note t = resync_never_writes_store [of example_page example_initial_data_with_alerts kitchen_seen None]
  have 1: "sensorsData (after (handle example_page (Initial_data example_initial_data_with_alerts)
      (after (handle example_page (Initial_data example_initial_data_with_alerts) kitchen_seen)))) =
      sensorsData kitchen_seen"
    using t by (simp only:)
  have 2: "sensorsData (after (handle example_page (Fetch_resolved None)
      (after (handle example_page (Fetch_resolved None) kitchen_seen)))) = sensorsData kitchen_seen"
    using t by (simp only:)
  show ?thesis using 1 2 by (simp only: kitchen_seen_store simp_thms)
qed

subsection \<open>C7: order within a buffer\<close>

text \<open>
  C7 as stated does not hold. After a reading at instant 2 and then one at instant 1 for
  the same sensor, the buffer holds them in that order.
\<close>

theorem late_reading_unsorts_buffer_counterexample:
  "map timestamp (buffer_of (run late_arrival example_dashboard) ''hvac_kitchen'') =
     [Instant 2, Instant 1] \<and>
   \<not> ascending (map timestamp (buffer_of (run late_arrival example_dashboard) ''hvac_kitchen''))"
proof -
  have "map timestamp (buffer_of (run late_arrival example_dashboard) ''hvac_kitchen'') =
          slice_last 50 (map timestamp (delivered ''hvac_kitchen'' late_arrival))"
    by (simp only: example_dashboard_def buffer_after_run [OF kitchen_not_inherited] map_slice_last)
  then have "map timestamp (buffer_of (run late_arrival example_dashboard) ''hvac_kitchen'') =
      [Instant 2, Instant 1]"
    by (simp add: delivered_late_arrival slice_last_def)
  then show ?thesis by (simp add: ascending_def)
qed

text \<open>
  C7, amended. The timestamps of a buffer are those of the last 50 readings inserted for
  the sensor, in the order of their arrival. The buffer is ascending by timestamp when
  the readings arrived in ascending order of timestamp; a reading older than the tail is
  appended after it. The readings inserted are the readings delivered, but for a sensor
  whose identifier is a name inherited from \<^verbatim>\<open>Object.prototype\<close>, for which none is.
\<close>

theorem buffer_keeps_arrival_order:
  "(s \<notin> set object_prototype_names \<longrightarrow>
      map timestamp (buffer_of (run xs (new_dashboard tempCtx humidityCtx)) s) =
        slice_last 50 (map timestamp (delivered s xs))) \<and>
   (s \<in> set object_prototype_names \<longrightarrow>
      buffer_of (run xs (new_dashboard tempCtx humidityCtx)) s = []) \<and>
   (ascending (map timestamp (delivered s xs)) \<longrightarrow>
      ascending (map timestamp (buffer_of (run xs (new_dashboard tempCtx humidityCtx)) s)))"
proof (cases "s \<in> set object_prototype_names")
  case True
  then show ?thesis by (simp add: buffer_after_run_inherited ascending_def)
next
  case False
  then show ?thesis by (simp add: buffer_after_run map_slice_last ascending_slice_last)
qed

theorem buffer_keeps_arrival_order_witness:
  "''hvac_kitchen'' \<notin> set object_prototype_names \<and>
   ascending (map timestamp (delivered ''hvac_kitchen'' in_order_arrival)) \<and>
   map timestamp (buffer_of (run in_order_arrival example_dashboard) ''hvac_kitchen'') =
     [Instant 1, Instant 2] \<and>
   ascending (map timestamp (buffer_of (run in_order_arrival example_dashboard) ''hvac_kitchen''))"
proof -
  note t = buffer_keeps_arrival_order [of "''hvac_kitchen''" in_order_arrival True True]
  have s: "ascending (map timestamp (delivered ''hvac_kitchen'' in_order_arrival))"
    by (simp add: delivered_in_order_arrival ascending_def)
  have "map timestamp (buffer_of (run in_order_arrival (new_dashboard True True)) ''hvac_kitchen'') =
      slice_last 50 (map timestamp (delivered ''hvac_kitchen'' in_order_arrival))"
    using t kitchen_not_inherited by blast
  then have 1: "map timestamp (buffer_of (run in_order_arrival example_dashboard) ''hvac_kitchen'') =
      [Instant 1, Instant 2]"
    by (simp add: example_dashboard_def delivered_in_order_arrival slice_last_def)
  have "ascending (map timestamp (buffer_of (run in_order_arrival (new_dashboard True True)) ''hvac_kitchen''))"
    using t s by blast
  then have 2: "ascending (map timestamp (buffer_of (run in_order_arrival example_dashboard) ''hvac_kitchen''))"
    by (simp only: example_dashboard_def)
  show ?thesis using kitchen_not_inherited s 1 2 by blast
qed

subsection \<open>C8: colours\<close>

text \<open>
  C8 as stated does not hold. The sensor named \<open>2\<close> reports first and the sensor named
  \<open>1\<close> second; \<^verbatim>\<open>Object.keys\<close> lists \<open>1\<close> before \<open>2\<close>, so the first-seen sensor gets
  the second colour of the palette.
\<close>

theorem numbered_sensors_recoloured_counterexample:
  "map fst (sensorsData (run numbered_arrival example_dashboard)) = [''2'', ''1''] \<and>
   map (\<lambda>ds. (label ds, borderColor ds))
     (temperatureDatasets example_page (sensorsData (run numbered_arrival example_dashboard))
        (uniqueTimestamps (sensorsData (run numbered_arrival example_dashboard)))) =
     [(''1'', sensorColors ! 0), (''2'', sensorColors ! 1)]"
  by (simp add: numbered_run temperatureDatasets_def numbered_entries)
     (simp add: numbered_store_def temperatureDataset_def getSensorName_numbered palette_def
        length_sensorColors)

text \<open>
  C8, amended. Two stores with the same sensor identifiers in the same first-seen order
  get the same colours, dataset by dataset, in both charts. The sensor at position \<open>i\<close>
  of \<^verbatim>\<open>Object.keys\<close> gets entry \<open>i mod 8\<close> of the palette, and that order is the
  first-seen order when no identifier is an array index.
\<close>

theorem colours_follow_key_order:
  "(map fst sd1 = map fst sd2 \<longrightarrow>
      map borderColor (temperatureDatasets e sd1 ts1) = map borderColor (temperatureDatasets e sd2 ts2) \<and>
      map borderColor (fst (humidityCo2Datasets e sd1 ts1)) =
        map borderColor (fst (humidityCo2Datasets e sd2 ts2)) \<and>
      map borderColor (snd (humidityCo2Datasets e sd1 ts1)) =
        map borderColor (snd (humidityCo2Datasets e sd2 ts2))) \<and>
   (i < length (object_keys sd) \<longrightarrow>
      label (temperatureDatasets e sd ts ! i) = getSensorName e (object_keys sd ! i) \<and>
      borderColor (temperatureDatasets e sd ts ! i) = sensorColors ! (i mod 8) \<and>
      borderColor (fst (humidityCo2Datasets e sd ts) ! i) = sensorColors ! (i mod 8) \<and>
      borderColor (snd (humidityCo2Datasets e sd ts) ! i) = sensorColors ! (i mod 8)) \<and>
   (list_all (\<lambda>k. \<not> is_array_index k) (map fst sd) \<longrightarrow> object_keys sd = map fst sd)"
  using colours_same_names [of sd1 sd2 e ts1 ts2] colour_of_position [of i sd e ts]
    object_keys_first_seen [of sd]
  by blast

theorem colours_follow_key_order_witness:
  "list_all (\<lambda>k. \<not> is_array_index k) (map fst scenario_store) \<and>
   object_keys scenario_store = map fst scenario_store \<and>
   1 < length (object_keys scenario_store) \<and>
   borderColor (temperatureDatasets example_page scenario_store scenario_timeline ! 1) = ''#0099cc''"
proof -
  have a: "list_all (\<lambda>k. \<not> is_array_index k) (map fst scenario_store)"
    by (simp add: scenario_store_def is_array_index_scenario)
  have b: "1 < length (object_keys scenario_store)" by (simp add: scenario_keys)
  have c: "sensorColors ! (1 mod 8) = ''#0099cc''" by (simp add: sensorColors_def)
  show ?thesis
    using colours_follow_key_order [of scenario_store scenario_store example_page scenario_timeline
        scenario_timeline 1 scenario_store scenario_timeline] a b c
    by simp
qed

subsection \<open>C9: the humidity and CO2 chart\<close>

text \<open>
  C9 as stated does not hold. With the sensor named \<open>2\<close> seen before the sensor named
  \<open>1\<close>, both groups of datasets list \<open>1\<close> before \<open>2\<close>.
\<close>

theorem numbered_sensors_reordered_counterexample:
  "map fst (sensorsData (run numbered_arrival example_dashboard)) = [''2'', ''1''] \<and>
   map label (fst (humidityCo2Datasets example_page (sensorsData (run numbered_arrival example_dashboard))
        (uniqueTimestamps (sensorsData (run numbered_arrival example_dashboard))))) =
     [''1 - Humidity'', ''2 - Humidity''] \<and>
   map label (snd (humidityCo2Datasets example_page (sensorsData (run numbered_arrival example_dashboard))
        (uniqueTimestamps (sensorsData (run numbered_arrival example_dashboard))))) =
     [''1'' @ co2_suffix, ''2'' @ co2_suffix]"
  by (simp add: numbered_run humidityCo2Datasets_eq numbered_entries)
     (simp add: numbered_store_def humidityDataset_def co2Dataset_def getSensorName_numbered)

text \<open>
  C9, amended. On a store that is not empty, \<^verbatim>\<open>updateCharts\<close> gives the humidity chart
  the humidity datasets followed by the CO2 datasets, one of each per sensor, both
  groups in the order of \<^verbatim>\<open>Object.keys\<close> (the first-seen order when no identifier is an
  array index). The two datasets of a sensor are labelled with its name followed by
  \<^verbatim>\<open> - Humidity\<close> and by \<^verbatim>\<open> - CO\<close> with a subscript two; the first is on axis \<open>y\<close>
  with a solid line, the second on axis \<open>y1\<close> with dashes \<open>[5, 5]\<close>.
\<close>

theorem humidity_then_co2_in_key_order:
  assumes "sensorsData d \<noteq> []" and "charts_humidity d = Some c"
  shows "map_option datasets (charts_humidity (updateCharts e d)) =
           Some (fst (humidityCo2Datasets e (sensorsData d) (uniqueTimestamps (sensorsData d))) @
                 snd (humidityCo2Datasets e (sensorsData d) (uniqueTimestamps (sensorsData d)))) \<and>
         length (fst (humidityCo2Datasets e (sensorsData d) ts)) = length (object_keys (sensorsData d)) \<and>
         length (snd (humidityCo2Datasets e (sensorsData d) ts)) = length (object_keys (sensorsData d)) \<and>
         (\<forall>i < length (object_keys (sensorsData d)).
            label (fst (humidityCo2Datasets e (sensorsData d) ts) ! i) =
              getSensorName e (object_keys (sensorsData d) ! i) @ '' - Humidity'' \<and>
            label (snd (humidityCo2Datasets e (sensorsData d) ts) ! i) =
              getSensorName e (object_keys (sensorsData d) ! i) @ co2_suffix \<and>
            yAxisID (fst (humidityCo2Datasets e (sensorsData d) ts) ! i) = Some ''y'' \<and>
            yAxisID (snd (humidityCo2Datasets e (sensorsData d) ts) ! i) = Some ''y1'' \<and>
            borderDash (fst (humidityCo2Datasets e (sensorsData d) ts) ! i) = None \<and>
            borderDash (snd (humidityCo2Datasets e (sensorsData d) ts) ! i) = Some [5, 5]) \<and>
         (list_all (\<lambda>k. \<not> is_array_index k) (map fst (sensorsData d)) \<longrightarrow>
            object_keys (sensorsData d) = map fst (sensorsData d))"
  using updateCharts_humidity [OF assms, of e] humidity_group_lengths [of e "sensorsData d" ts]
    humidity_pair [of _ "sensorsData d" e ts] object_keys_first_seen [of "sensorsData d"]
  by blast

theorem humidity_then_co2_in_key_order_witness:
  "sensorsData scenario_dashboard \<noteq> [] \<and>
   charts_humidity scenario_dashboard = Some \<lparr>labels = [], datasets = []\<rparr> \<and>
   length (fst (humidityCo2Datasets example_page (sensorsData scenario_dashboard) scenario_timeline)) = 2 \<and>
   object_keys (sensorsData scenario_dashboard) = [''hvac_office_a1'', ''hvac_office_a2''] \<and>
   label (snd (humidityCo2Datasets example_page (sensorsData scenario_dashboard) scenario_timeline) ! 1) =
     ''Office A2'' @ co2_suffix"
proof -
  have a: "sensorsData scenario_dashboard \<noteq> []"
    by (simp add: scenario_dashboard_def scenario_store_def)
  have b: "charts_humidity scenario_dashboard = Some \<lparr>labels = [], datasets = []\<rparr>"
    by (simp add: scenario_dashboard_def example_dashboard_def new_dashboard_def new_chart_def)
  have k: "object_keys (sensorsData scenario_dashboard) = [''hvac_office_a1'', ''hvac_office_a2'']"
    by (simp add: scenario_dashboard_def scenario_keys)
  have n: "getSensorName example_page ''hvac_office_a2'' = ''Office A2''"
    by (simp add: getSensorName_def get_prop_def sensorNames_def)
  have i: "1 < length (object_keys (sensorsData scenario_dashboard))" by (simp add: k)
  have "label (snd (humidityCo2Datasets example_page (sensorsData scenario_dashboard) scenario_timeline) ! 1) =
     getSensorName example_page (object_keys (sensorsData scenario_dashboard) ! 1) @ co2_suffix"
    using humidity_then_co2_in_key_order [OF a b, of example_page scenario_timeline] i by blast
  moreover have "length (fst (humidityCo2Datasets example_page (sensorsData scenario_dashboard) scenario_timeline)) =
     length (object_keys (sensorsData scenario_dashboard))"
    using humidity_then_co2_in_key_order [OF a b, of example_page scenario_timeline] by blast
  ultimately show ?thesis using a b k n by simp
qed

subsection \<open>C10: statuses outside the table\<close>

text \<open>
  C10 is what the fallback \<^verbatim>\<open>statusConfigs[status] || statusConfigs['NORMAL']\<close> is written
  for, and the code misses it for a status that is a name every object inherits. The
  status \<^verbatim>\<open>constructor\<close> is none of the three keys of the table, yet
  \<^verbatim>\<open>statusConfigs['constructor']\<close> is the truthy inherited function, so the fallback is
  not taken: the element gets the class \<^verbatim>\<open>undefined\<close> and the text \<^verbatim>\<open>undefined\<close>, where
  C10 has what \<^verbatim>\<open>NORMAL\<close> shows.
\<close>

theorem constructor_status_shows_undefined:
  \<open>updateSystemStatus example_page ''constructor'' =
     [SystemStatusShown ''undefined'' ''<i class="fas undefined me-2"></i>undefined''] \<and>
   updateSystemStatus example_page ''NORMAL'' =
     [SystemStatusShown ''system-status status-normal''
        ''<i class="fas fa-check-circle me-2"></i>All Systems Operating Normally'']\<close>
  by (simp add: updateSystemStatus_def status_lookup_inherited [OF constructor_inherited]
      status_lookup_NORMAL example_page_def js_string_def status_markup_def)

end
